theory Spec2Isabelle
  imports Complex_Main
begin

section \<open>Python and numpy values\<close>

text \<open>
  The exceptions that \<^verbatim>\<open>free_energy.py\<close> can raise through Python, numpy and
  MDAnalysis operations. The module defines no exception class of its own.
\<close>

datatype py_error = TypeError | IndexError | ValueError | ZeroDivisionError

text \<open>
  A numpy float: a finite number, one of the two infinities, or \<^verbatim>\<open>nan\<close>. The two
  zeros of floating point are the one value \<open>Num 0\<close>.
\<close>

datatype fl = Num real | PInf | NInf | NaN

text \<open>
  Comparison, negation and \<^verbatim>\<open>np.clip\<close> are exact in floating point and are defined
  here. Every comparison with \<^verbatim>\<open>nan\<close> is false.
\<close>

fun fl_le :: "fl \<Rightarrow> fl \<Rightarrow> bool" where
  "fl_le NaN _ = False"
| "fl_le _ NaN = False"
| "fl_le (Num x) (Num y) = (x \<le> y)"
| "fl_le NInf _ = True"
| "fl_le _ PInf = True"
| "fl_le _ _ = False"

definition fl_ge :: "fl \<Rightarrow> fl \<Rightarrow> bool" where
  "fl_ge x y = fl_le y x"

fun fl_neg :: "fl \<Rightarrow> fl" where
  "fl_neg (Num x) = Num (- x)"
| "fl_neg PInf = NInf"
| "fl_neg NInf = PInf"
| "fl_neg NaN = NaN"

text \<open>
  \<^verbatim>\<open>np.clip(x, lo, hi)\<close> is \<^verbatim>\<open>minimum(maximum(x, lo), hi)\<close>, and both
  propagate \<^verbatim>\<open>nan\<close>.
\<close>

fun np_clip :: "fl \<Rightarrow> real \<Rightarrow> real \<Rightarrow> fl" where
  "np_clip (Num v) lo hi = Num (min (max v lo) hi)"
| "np_clip PInf lo hi = Num hi"
| "np_clip NInf lo hi = Num (min lo hi)"
| "np_clip NaN lo hi = NaN"

subsection \<open>Positions and column selection\<close>

type_synonym vec3 = "fl \<times> fl \<times> fl"

fun comp3 :: "vec3 \<Rightarrow> nat \<Rightarrow> fl" where
  "comp3 (x, y, z) k = (if k = 0 then x else if k = 1 then y else z)"

text \<open>
  \<^verbatim>\<open>positions[:, ks]\<close> for one row. Both pipelines raise IndexError on an axis index
  above 2 before any row is read (\<^verbatim>\<open>periodic_vector[pbc_indices] = 1\<close>), so \<open>ks\<close>
  holds indices below 3 wherever this is used.
\<close>

definition take_cols :: "nat list \<Rightarrow> vec3 \<Rightarrow> fl list" where
  "take_cols ks p = map (comp3 p) ks"

text \<open>
  \<^verbatim>\<open>list(set(pbc_indices) ^ set([0, 1, 2]))\<close> once the axis indices are known to be
  below 3: the axes that are not periodic, in ascending order (the iteration order of a
  CPython set of small non-negative integers). Axis indices are natural numbers here;
  numpy's negative indices are outside the model.
\<close>

definition not_pbc_of :: "nat list \<Rightarrow> nat list" where
  "not_pbc_of pbc_indices = filter (\<lambda>k. k \<notin> set pbc_indices) [0, 1, 2]"

subsection \<open>Frame ranges\<close>

text \<open>
  \<^verbatim>\<open>(universe.trajectory[start_frame:end_frame])[::frame_frequency]\<close>: a Python slice
  of the \<open>n\<close> frames, then every \<open>k\<close>-th of those (backwards for a negative step; a
  zero step raises ValueError).
\<close>

definition py_slice_bound :: "nat \<Rightarrow> int \<Rightarrow> nat" where
  "py_slice_bound n i = (if i < 0 then nat (max 0 (i + int n)) else min (nat i) n)"

definition py_slice :: "nat \<Rightarrow> int \<Rightarrow> int \<Rightarrow> nat list" where
  "py_slice n start_frame end_frame = [py_slice_bound n start_frame ..< py_slice_bound n end_frame]"

function every_nth :: "nat \<Rightarrow> 'a list \<Rightarrow> 'a list" where
  "every_nth k [] = []"
| "every_nth k (x # xs) = x # every_nth k (drop (k - 1) xs)"
  by pat_completeness auto
termination
  by (relation "measure (\<lambda>(k, xs). length xs)") auto

definition py_stride :: "int \<Rightarrow> 'a list \<Rightarrow> py_error + 'a list" where
  "py_stride frame_frequency xs =
     (if frame_frequency = 0 then Inl ValueError
      else if 0 < frame_frequency then Inr (every_nth (nat frame_frequency) xs)
      else Inr (every_nth (nat (- frame_frequency)) (rev xs)))"

definition frames_of :: "nat \<Rightarrow> int \<Rightarrow> int \<Rightarrow> int \<Rightarrow> py_error + nat list" where
  "frames_of n start_frame end_frame frame_frequency =
     py_stride frame_frequency (py_slice n start_frame end_frame)"

text \<open>
  \<^verbatim>\<open>int((end_frame - start_frame) / frame_frequency)\<close>: true division of Python
  integers (ZeroDivisionError on a zero divisor), truncated towards zero.
\<close>

definition py_int_truediv :: "int \<Rightarrow> int \<Rightarrow> py_error + int" where
  "py_int_truediv a b =
     (if b = 0 then Inl ZeroDivisionError
      else Inr (sgn a * sgn b * (\<bar>a\<bar> div \<bar>b\<bar>)))"

text \<open>
  \<^verbatim>\<open>np.column_stack((a, b))\<close> of two one-dimensional sequences: rows of two columns;
  ValueError when the lengths differ.
\<close>

definition np_column_stack :: "fl list \<Rightarrow> fl list \<Rightarrow> py_error + (fl \<times> fl) list" where
  "np_column_stack a b = (if length a = length b then Inr (zip a b) else Inl ValueError)"

section \<open>The universe and its collaborators\<close>

text \<open>
  Calls into MDAnalysis that read or write the universe, and the call of
  \<^verbatim>\<open>utils.rotation_matrix\<close>, are logged in order.
\<close>

datatype call =
    PackIntoBox
  | SelectAtoms "string list"
  | CenterOfMass "nat list"
  | LoadFrame nat
  | RotationMatrix

text \<open>
  The MDAnalysis universe: atom names, the frames of the trajectory (one position per
  atom), the positions of the current time step (\<^verbatim>\<open>universe.atoms.positions\<close>,
  replaced when the iteration moves to a frame) and the log of calls.
\<close>

record universe =
  names :: "string list"
  trajectory :: "vec3 list list"
  positions :: "vec3 list"
  calls :: "call list"

text \<open>
  What the module calls and does not define. The theorems hold for every choice of
  these operations.

  The library operations: MDAnalysis' \<^verbatim>\<open>pack_into_box\<close> (box, positions), the
  centre of mass of a group that has atoms (atom indices of the group, positions),
  numpy's \<^verbatim>\<open>argsort\<close>, and \<^verbatim>\<open>utils.rotation_matrix\<close> (axis, angle; three rows),
  which belongs to the package and is not among the sources.

  The floating-point operations, whose results are rounded and can overflow to an
  infinity or underflow to zero: double-precision addition, subtraction,
  multiplication and division, \<^verbatim>\<open>np.dot\<close> and the rows of \<^verbatim>\<open>np.matmul\<close>,
  \<^verbatim>\<open>np.linalg.norm\<close>, \<^verbatim>\<open>np.arccos\<close>, \<^verbatim>\<open>np.arctan2\<close> and the constant
  \<^verbatim>\<open>np.pi\<close>. MDAnalysis stores positions in single precision: \<open>to_float32\<close> is
  the rounding of a value assigned to \<^verbatim>\<open>universe.atoms.positions\<close>, and
  \<open>f_norm_single\<close> and \<open>f_mean_single\<close> are \<^verbatim>\<open>np.linalg.norm\<close> and
  \<^verbatim>\<open>np.mean\<close> of single-precision arrays, which numpy computes in single
  precision.
\<close>

record collaborators =
  wrap_box :: "real list \<Rightarrow> vec3 list \<Rightarrow> vec3 list"
  com_of :: "nat list \<Rightarrow> vec3 list \<Rightarrow> vec3"
  argsort :: "fl list \<Rightarrow> nat list"
  rotation_matrix :: "real \<times> real \<times> real \<Rightarrow> fl \<Rightarrow> vec3 \<times> vec3 \<times> vec3"
  to_float32 :: "fl \<Rightarrow> fl"
  f_add :: "fl \<Rightarrow> fl \<Rightarrow> fl"
  f_sub :: "fl \<Rightarrow> fl \<Rightarrow> fl"
  f_mul :: "fl \<Rightarrow> fl \<Rightarrow> fl"
  f_div :: "fl \<Rightarrow> fl \<Rightarrow> fl"
  f_dot :: "fl list \<Rightarrow> fl list \<Rightarrow> fl"
  f_norm :: "fl list \<Rightarrow> fl"
  f_norm_single :: "fl list \<Rightarrow> fl"
  f_mean_single :: "fl list \<Rightarrow> fl"
  f_arccos :: "fl \<Rightarrow> fl"
  f_arctan2 :: "fl \<Rightarrow> fl \<Rightarrow> fl"
  f_pi :: fl

text \<open>Arithmetic on rows of three coordinates, element by element.\<close>

fun vsub :: "collaborators \<Rightarrow> vec3 \<Rightarrow> vec3 \<Rightarrow> vec3" where
  "vsub c (x, y, z) (dx, dy, dz) = (f_sub c x dx, f_sub c y dy, f_sub c z dz)"

fun vadd :: "collaborators \<Rightarrow> vec3 \<Rightarrow> vec3 \<Rightarrow> vec3" where
  "vadd c (x, y, z) (dx, dy, dz) = (f_add c x dx, f_add c y dy, f_add c z dz)"

fun vcast :: "collaborators \<Rightarrow> vec3 \<Rightarrow> vec3" where
  "vcast c (x, y, z) = (to_float32 c x, to_float32 c y, to_float32 c z)"

definition pack_into_box :: "collaborators \<Rightarrow> real list \<Rightarrow> universe \<Rightarrow> universe" where
  "pack_into_box c box u =
     u\<lparr>positions := wrap_box c box (positions u), calls := calls u @ [PackIntoBox]\<rparr>"

definition select_atoms :: "string list \<Rightarrow> universe \<Rightarrow> nat list \<times> universe" where
  "select_atoms nms u =
     (filter (\<lambda>i. names u ! i \<in> set nms) [0 ..< length (names u)],
      u\<lparr>calls := calls u @ [SelectAtoms nms]\<rparr>)"

definition all_atoms :: "universe \<Rightarrow> nat list" where
  "all_atoms u = [0 ..< length (names u)]"

text \<open>
  \<^verbatim>\<open>AtomGroup.center_of_mass()\<close>: MDAnalysis raises ValueError for a group with no
  atom. The call is logged whether it raises or not.
\<close>

definition center_of_mass ::
  "collaborators \<Rightarrow> nat list \<Rightarrow> universe \<Rightarrow> universe \<times> (py_error + vec3)" where
  "center_of_mass c grp u =
     (u\<lparr>calls := calls u @ [CenterOfMass grp]\<rparr>,
      if grp = [] then Inl ValueError else Inr (com_of c grp (positions u)))"

text \<open>
  Moving the iteration to frame \<open>i\<close>. The frame numbers come from a slice of the
  trajectory (\<open>frames_of\<close>), so they are below its length. Every frame holds one
  position per atom, so the atom indices of a group are in range of the positions.
\<close>

definition load_frame :: "nat \<Rightarrow> universe \<Rightarrow> universe" where
  "load_frame i u = u\<lparr>positions := trajectory u ! i, calls := calls u @ [LoadFrame i]\<rparr>"

definition group_positions :: "nat list \<Rightarrow> universe \<Rightarrow> vec3 list" where
  "group_positions grp u = map (\<lambda>i. positions u ! i) grp"

text \<open>
  \<^verbatim>\<open>universe.atoms.positions = ps\<close>: the values are stored in single precision.
\<close>

definition set_positions :: "collaborators \<Rightarrow> vec3 list \<Rightarrow> universe \<Rightarrow> universe" where
  "set_positions c ps u = u\<lparr>positions := map (vcast c) ps\<rparr>"

text \<open>\<^verbatim>\<open>universe.atoms.positions -= d\<close>.\<close>

definition translate_all :: "collaborators \<Rightarrow> vec3 \<Rightarrow> universe \<Rightarrow> universe" where
  "translate_all c d u = set_positions c (map (\<lambda>p. vsub c p d) (positions u)) u"

definition solid_names :: "string list" where
  "solid_names = [''B'', ''N'', ''C'', ''Na'', ''Cl'']"

subsection \<open>Indexing that can raise\<close>

text \<open>\<^verbatim>\<open>xs[i]\<close> on a Python list.\<close>

definition py_index :: "'a list \<Rightarrow> nat \<Rightarrow> py_error + 'a" where
  "py_index xs i = (if i < length xs then Inr (xs ! i) else Inl IndexError)"

text \<open>\<^verbatim>\<open>np.where(mask)\<close> on a one-dimensional boolean array: the indices where it holds.\<close>

definition np_where :: "bool list \<Rightarrow> nat list" where
  "np_where flags = filter (\<lambda>j. flags ! j) [0 ..< length flags]"

text \<open>
  Indexing rows with an index array (\<^verbatim>\<open>a[idx]\<close>, and an AtomGroup indexed the same
  way): IndexError when an index is out of range.
\<close>

definition take_rows :: "'a list \<Rightarrow> nat list \<Rightarrow> py_error + 'a list" where
  "take_rows xs idx =
     (if \<forall>j \<in> set idx. j < length xs then Inr (map (\<lambda>j. xs ! j) idx) else Inl IndexError)"

text \<open>
  \<^verbatim>\<open>a[:, col]\<close> on a two-dimensional array with \<open>width\<close> columns: the bound is
  checked whatever the number of rows.
\<close>

definition np_column :: "nat \<Rightarrow> nat \<Rightarrow> fl list list \<Rightarrow> py_error + fl list" where
  "np_column width col rows =
     (if col < width then Inr (map (\<lambda>r. r ! col) rows) else Inl IndexError)"

text \<open>
  Assigning an array of \<open>width\<close> columns to a block of two columns
  (\<^verbatim>\<open>solid_all[count_frames] = ...\<close>): two columns fit, one column is broadcast, any
  other width raises ValueError.
\<close>

definition broadcast_rows2 :: "nat \<Rightarrow> fl list list \<Rightarrow> py_error + (fl \<times> fl) list" where
  "broadcast_rows2 width rows =
     (if width = 2 then Inr (map (\<lambda>r. (r ! 0, r ! 1)) rows)
      else if width = 1 then Inr (map (\<lambda>r. (r ! 0, r ! 0)) rows)
      else Inl ValueError)"

section \<open>The pipeline for two periodic directions (slab)\<close>

text \<open>What the function fixes before its frame loop, and the arguments the loop reads.\<close>

record slab_setup =
  s_box :: "real list"
  s_cutoff :: real
  s_pbc_indices :: "nat list"
  s_not_pbc_indices :: "nat list"
  s_solid_atoms :: "nat list"
  s_liquid_atoms :: "nat list"
  s_anchor_coordinates :: vec3

record slab_acc =
  liquid_contact_coord1 :: "fl list"
  liquid_contact_coord2 :: "fl list"
  solid_all :: "(fl \<times> fl) list list"

text \<open>
  Lines 285 and 286: subtract the translation of the centre of mass of
  \<^verbatim>\<open>universe.atoms\<close> from every position. The second component is the exception
  raised, if any.
\<close>

definition slab_translate ::
  "collaborators \<Rightarrow> vec3 \<Rightarrow> universe \<Rightarrow> universe \<times> py_error option" where
  "slab_translate c anchor_coordinates u =
     (case center_of_mass c (all_atoms u) u of
        (u1, Inl e) \<Rightarrow> (u1, Some e)
      | (u1, Inr com) \<Rightarrow>
          (let translation_from_frame0 = vsub c com anchor_coordinates
           in (translate_all c translation_from_frame0 u1, None)))"

text \<open>Lines 280 to 289: wrap, translate, wrap again.\<close>

definition slab_normalize ::
  "collaborators \<Rightarrow> real list \<Rightarrow> vec3 \<Rightarrow> universe \<Rightarrow> universe \<times> py_error option" where
  "slab_normalize c box anchor_coordinates u =
     (case slab_translate c anchor_coordinates (pack_into_box c box u) of
        (u2, Some e) \<Rightarrow> (u2, Some e)
      | (u2, None) \<Rightarrow> (pack_into_box c box u2, None))"

text \<open>Lines 295 to 297: the offsets along the confined axes, flattened row by row.\<close>

definition perpendicular_distance_liquid_to_solid ::
  "collaborators \<Rightarrow> nat list \<Rightarrow> vec3 \<Rightarrow> vec3 list \<Rightarrow> fl list" where
  "perpendicular_distance_liquid_to_solid c not_pbc_indices solid_COM liquid_positions =
     concat (map (\<lambda>p. map (\<lambda>k. f_sub c (comp3 p k) (comp3 solid_COM k)) not_pbc_indices)
       liquid_positions)"

text \<open>Lines 300 to 301: the indices \<^verbatim>\<open>np.where\<close> hands to the liquid group.\<close>

definition slab_contact_indices ::
  "collaborators \<Rightarrow> nat list \<Rightarrow> real \<Rightarrow> vec3 \<Rightarrow> vec3 list \<Rightarrow> nat list" where
  "slab_contact_indices c not_pbc_indices spatial_extent_contact_layer solid_COM liquid_positions =
     np_where (map (\<lambda>d. fl_le d (Num spatial_extent_contact_layer))
       (perpendicular_distance_liquid_to_solid c not_pbc_indices solid_COM liquid_positions))"

text \<open>
  Lines 300 to 311: the selected atoms' positions restricted to the periodic axes, and
  the two columns read from that array at \<^verbatim>\<open>pbc_indices[0]\<close> and
  \<^verbatim>\<open>pbc_indices[1]\<close>.
\<close>

definition slab_liquid ::
  "collaborators \<Rightarrow> nat list \<Rightarrow> nat list \<Rightarrow> real \<Rightarrow> vec3 \<Rightarrow> vec3 list
     \<Rightarrow> py_error + fl list \<times> fl list" where
  "slab_liquid c pbc_indices not_pbc_indices spatial_extent_contact_layer solid_COM
       liquid_positions =
     (case take_rows liquid_positions
             (slab_contact_indices c not_pbc_indices spatial_extent_contact_layer solid_COM
                liquid_positions) of
        Inl e \<Rightarrow> Inl e
      | Inr selected \<Rightarrow>
          (let liquid_atoms_in_contact_positions = map (take_cols pbc_indices) selected
           in case py_index pbc_indices 0 of
                Inl e \<Rightarrow> Inl e
              | Inr col0 \<Rightarrow>
                 (case np_column (length pbc_indices) col0 liquid_atoms_in_contact_positions of
                    Inl e \<Rightarrow> Inl e
                  | Inr added1 \<Rightarrow>
                     (case py_index pbc_indices 1 of
                        Inl e \<Rightarrow> Inl e
                      | Inr col1 \<Rightarrow>
                         (case np_column (length pbc_indices) col1
                                 liquid_atoms_in_contact_positions of
                            Inl e \<Rightarrow> Inl e
                          | Inr added2 \<Rightarrow> Inr (added1, added2))))))"

text \<open>Line 314: the block of \<^verbatim>\<open>solid_all\<close> for this frame.\<close>

definition slab_store_solid ::
  "nat list \<Rightarrow> nat \<Rightarrow> vec3 list \<Rightarrow> (fl \<times> fl) list list \<Rightarrow> py_error + (fl \<times> fl) list list" where
  "slab_store_solid pbc_indices count_frames solid_positions blocks =
     (if length blocks \<le> count_frames then Inl IndexError
      else case broadcast_rows2 (length pbc_indices)
                  (map (take_cols pbc_indices) solid_positions) of
             Inl e \<Rightarrow> Inl e
           | Inr rows \<Rightarrow> Inr (blocks[count_frames := rows]))"

text \<open>One pass of the loop body, lines 277 to 314.\<close>

definition slab_frame ::
  "collaborators \<Rightarrow> slab_setup \<Rightarrow> nat \<Rightarrow> nat \<Rightarrow> slab_acc \<Rightarrow> universe
     \<Rightarrow> universe \<times> (py_error + slab_acc)" where
  "slab_frame c S count_frames i acc u =
     (case slab_normalize c (s_box S) (s_anchor_coordinates S) (load_frame i u) of
        (u2, Some e) \<Rightarrow> (u2, Inl e)
      | (u2, None) \<Rightarrow>
         (case center_of_mass c (s_solid_atoms S) u2 of
            (u3, Inl e) \<Rightarrow> (u3, Inl e)
          | (u3, Inr solid_COM) \<Rightarrow>
             (case slab_liquid c (s_pbc_indices S) (s_not_pbc_indices S) (s_cutoff S) solid_COM
                     (group_positions (s_liquid_atoms S) u3) of
                Inl e \<Rightarrow> (u3, Inl e)
              | Inr (added1, added2) \<Rightarrow>
                 (case slab_store_solid (s_pbc_indices S) count_frames
                         (group_positions (s_solid_atoms S) u3) (solid_all acc) of
                    Inl e \<Rightarrow> (u3, Inl e)
                  | Inr blocks \<Rightarrow>
                      (u3, Inr \<lparr>liquid_contact_coord1 = liquid_contact_coord1 acc @ added1,
                                liquid_contact_coord2 = liquid_contact_coord2 acc @ added2,
                                solid_all = blocks\<rparr>)))))"

fun slab_loop ::
  "collaborators \<Rightarrow> slab_setup \<Rightarrow> (nat \<times> nat) list \<Rightarrow> slab_acc \<Rightarrow> universe
     \<Rightarrow> universe \<times> (py_error + slab_acc)" where
  "slab_loop c S [] acc u = (u, Inr acc)"
| "slab_loop c S ((count_frames, i) # rest) acc u =
     (case slab_frame c S count_frames i acc u of
        (u', Inl e) \<Rightarrow> (u', Inl e)
      | (u', Inr acc') \<Rightarrow> slab_loop c S rest acc' u')"

text \<open>
  Lines 316 to 319. \<^verbatim>\<open>np.concatenate\<close> of an array with no block raises
  ValueError.
\<close>

definition slab_finish :: "slab_acc \<Rightarrow> py_error + (fl \<times> fl) list \<times> (fl \<times> fl) list" where
  "slab_finish acc =
     (case np_column_stack (liquid_contact_coord1 acc) (liquid_contact_coord2 acc) of
        Inl e \<Rightarrow> Inl e
      | Inr liquid_contact_2d \<Rightarrow>
          (if solid_all acc = [] then Inl ValueError
           else Inr (liquid_contact_2d, concat (solid_all acc))))"

text \<open>
  What the function fixes before its frame loop, lines 255 to 269: the initial wrap,
  the two atom groups and the anchor, which is the centre of mass of
  \<^verbatim>\<open>universe.atoms\<close>.
\<close>

definition slab_prepare ::
  "collaborators \<Rightarrow> universe \<Rightarrow> real list \<Rightarrow> real \<Rightarrow> nat list
     \<Rightarrow> universe \<times> (py_error + slab_setup)" where
  "slab_prepare c universe0 topology spatial_extent_contact_layer pbc_indices =
     (if \<exists>k \<in> set pbc_indices. 3 \<le> k then (universe0, Inl IndexError)
      else
        let u1 = pack_into_box c topology universe0;
            (solid_atoms, u2) = select_atoms solid_names u1;
            (liquid_atoms, u3) = select_atoms [''O''] u2
        in case center_of_mass c (all_atoms u3) u3 of
             (u4, Inl e) \<Rightarrow> (u4, Inl e)
           | (u4, Inr anchor_coordinates) \<Rightarrow>
               (u4, Inr \<lparr>s_box = topology, s_cutoff = spatial_extent_contact_layer,
                         s_pbc_indices = pbc_indices,
                         s_not_pbc_indices = not_pbc_of pbc_indices,
                         s_solid_atoms = solid_atoms, s_liquid_atoms = liquid_atoms,
                         s_anchor_coordinates = anchor_coordinates\<rparr>))"

text \<open>
  \<^verbatim>\<open>_compute_distribution_for_system_with_two_periodic_directions\<close>. The result
  is the universe as the call leaves it and the exception raised or the pair returned.
  Line 274 allocates \<^verbatim>\<open>int((end_frame - start_frame) / frame_frequency)\<close> blocks of
  zeros (ValueError for a negative number); the loop enumerates the frames of the slice.
\<close>

definition compute_distribution_for_system_with_two_periodic_directions ::
  "collaborators \<Rightarrow> universe \<Rightarrow> real list \<Rightarrow> real \<Rightarrow> nat list \<Rightarrow> int \<Rightarrow> int \<Rightarrow> int
     \<Rightarrow> universe \<times> (py_error + (fl \<times> fl) list \<times> (fl \<times> fl) list)" where
  "compute_distribution_for_system_with_two_periodic_directions c universe0 topology
       spatial_extent_contact_layer pbc_indices start_frame end_frame frame_frequency =
     (case slab_prepare c universe0 topology spatial_extent_contact_layer pbc_indices of
        (u4, Inl e) \<Rightarrow> (u4, Inl e)
      | (u4, Inr S) \<Rightarrow>
         (case py_int_truediv (end_frame - start_frame) frame_frequency of
            Inl e \<Rightarrow> (u4, Inl e)
          | Inr n0 \<Rightarrow>
             (if n0 < 0 then (u4, Inl ValueError)
              else
                case frames_of (length (trajectory u4)) start_frame end_frame frame_frequency of
                  Inl e \<Rightarrow> (u4, Inl e)
                | Inr frames \<Rightarrow>
                   (case slab_loop c S (zip [0 ..< length frames] frames)
                           \<lparr>liquid_contact_coord1 = [], liquid_contact_coord2 = [],
                            solid_all = replicate (nat n0)
                              (replicate (length (s_solid_atoms S)) (Num 0, Num 0))\<rparr>
                           u4 of
                      (u5, Inl e) \<Rightarrow> (u5, Inl e)
                    | (u5, Inr acc) \<Rightarrow> (u5, slab_finish acc)))))"

section \<open>The pipeline for one periodic direction (tube)\<close>

text \<open>\<^verbatim>\<open>periodic_vector = np.zeros(3); periodic_vector[pbc_indices] = 1\<close>.\<close>

definition periodic_vector_of :: "nat list \<Rightarrow> real \<times> real \<times> real" where
  "periodic_vector_of pbc_indices =
     ((if 0 \<in> set pbc_indices then 1 else 0),
      (if 1 \<in> set pbc_indices then 1 else 0),
      (if 2 \<in> set pbc_indices then 1 else 0))"

text \<open>
  \<^verbatim>\<open>_get_atom_ids_on_same_tube_axis\<close>: the solid atoms sorted by their distance
  from atom 0 in the confined directions, cut to the first
  \<^verbatim>\<open>2 * tube_length_in_unit_cells\<close>. Reading atom 0 of an empty group raises
  IndexError; \<^verbatim>\<open>2 * None\<close> raises TypeError. The positions are single-precision
  arrays, and so are their difference and its norm.
\<close>

definition get_atom_ids_on_same_tube_axis ::
  "collaborators \<Rightarrow> vec3 list \<Rightarrow> int option \<Rightarrow> nat list \<Rightarrow> py_error + nat list" where
  "get_atom_ids_on_same_tube_axis c solid_positions tube_length_in_unit_cells not_pbc_indices =
     (case solid_positions of
        [] \<Rightarrow> Inl IndexError
      | p0 # _ \<Rightarrow>
          (let ids_candidate_atoms_on_axis_with_0 =
                 argsort c (map (\<lambda>p. f_norm_single c
                   (map (\<lambda>k. to_float32 c (f_sub c (comp3 p k) (comp3 p0 k))) not_pbc_indices))
                   solid_positions)
           in case tube_length_in_unit_cells of
                None \<Rightarrow> Inl TypeError
              | Some n \<Rightarrow>
                  Inr (take (py_slice_bound (length ids_candidate_atoms_on_axis_with_0) (2 * n))
                         ids_candidate_atoms_on_axis_with_0)))"

record tube_setup =
  t_box :: "real list"
  t_cutoff :: real
  t_pbc_indices :: "nat list"
  t_not_pbc_indices :: "nat list"
  t_periodic_vector :: "real \<times> real \<times> real"
  t_solid_atoms :: "nat list"
  t_liquid_atoms :: "nat list"
  t_anchor_coordinates :: vec3
  t_indices_atoms_anchor_rotation :: "nat list"
  t_tube_circumference :: fl

record tube_acc =
  tube_liquid_contact_coord1 :: "fl list"
  tube_liquid_contact_coord2 :: "fl list"
  solid_coord1 :: "fl list"
  solid_coord2 :: "fl list"

text \<open>
  Lines 127 and 128: subtract the translation of the solid's centre of mass from every
  position. The second component is the exception raised, if any.
\<close>

definition tube_translate ::
  "collaborators \<Rightarrow> nat list \<Rightarrow> vec3 \<Rightarrow> universe \<Rightarrow> universe \<times> py_error option" where
  "tube_translate c solid_atoms anchor_coordinates u =
     (case center_of_mass c solid_atoms u of
        (u1, Inl e) \<Rightarrow> (u1, Some e)
      | (u1, Inr com) \<Rightarrow>
          (let translation_from_frame0 = vsub c com anchor_coordinates
           in (translate_all c translation_from_frame0 u1, None)))"

text \<open>
  \<^verbatim>\<open>np.mean(rows, axis=0)\<close> of a single-precision array with \<open>width\<close> columns.
\<close>

definition np_mean_axis0 :: "collaborators \<Rightarrow> nat \<Rightarrow> fl list list \<Rightarrow> fl list" where
  "np_mean_axis0 c width rows =
     map (\<lambda>col. f_mean_single c (map (\<lambda>r. r ! col) rows)) [0 ..< width]"

text \<open>
  Lines 143 to 151. \<^verbatim>\<open>np.dot\<close> with the two-element direction raises ValueError
  unless \<^verbatim>\<open>solid_axis\<close> has two elements. Nothing is tested before the division.
\<close>

definition normed_dot_product_of :: "collaborators \<Rightarrow> fl list \<Rightarrow> py_error + fl" where
  "normed_dot_product_of c solid_axis =
     (if length solid_axis \<noteq> 2 then Inl ValueError
      else Inr (np_clip
             (f_div c (f_dot c solid_axis [Num 1, Num 0]) (f_norm_single c solid_axis))
             (- 1) 1))"

text \<open>Lines 155 to 157.\<close>

definition angle_anchor_first_axis_of :: "collaborators \<Rightarrow> fl list \<Rightarrow> py_error + fl" where
  "angle_anchor_first_axis_of c solid_axis =
     (case normed_dot_product_of c solid_axis of
        Inl e \<Rightarrow> Inl e
      | Inr normed_dot_product \<Rightarrow>
          Inr (if fl_le (solid_axis ! 1) (Num 0) then f_arccos c normed_dot_product
               else fl_neg (f_arccos c normed_dot_product)))"

text \<open>
  One column of \<^verbatim>\<open>np.matmul(rotation_matrix, positions.T)\<close>: the dot products of
  the three rows of the matrix with a position.
\<close>

fun vec_list :: "vec3 \<Rightarrow> fl list" where
  "vec_list (x, y, z) = [x, y, z]"

fun mat_vec :: "collaborators \<Rightarrow> vec3 \<times> vec3 \<times> vec3 \<Rightarrow> vec3 \<Rightarrow> vec3" where
  "mat_vec c (r0, r1, r2) p =
     (f_dot c (vec_list r0) (vec_list p), f_dot c (vec_list r1) (vec_list p),
      f_dot c (vec_list r2) (vec_list p))"

text \<open>
  Lines 130 to 169: move to the centre of mass of all atoms, rotate about the periodic
  axis, move back, wrap.
\<close>

definition tube_rotate ::
  "collaborators \<Rightarrow> tube_setup \<Rightarrow> universe \<Rightarrow> universe \<times> py_error option" where
  "tube_rotate c S u =
     (case center_of_mass c (all_atoms u) u of
        (u3, Inl e) \<Rightarrow> (u3, Some e)
      | (u3, Inr COM) \<Rightarrow>
         (let u4 = translate_all c COM u3
          in case take_rows (group_positions (t_solid_atoms S) u4)
                    (t_indices_atoms_anchor_rotation S) of
               Inl e \<Rightarrow> (u4, Some e)
             | Inr reference_positions \<Rightarrow>
                (case angle_anchor_first_axis_of c
                        (np_mean_axis0 c (length (t_not_pbc_indices S))
                           (map (take_cols (t_not_pbc_indices S)) reference_positions)) of
                   Inl e \<Rightarrow> (u4, Some e)
                 | Inr angle_anchor_first_axis \<Rightarrow>
                    (let rot = rotation_matrix c (t_periodic_vector S) angle_anchor_first_axis;
                         u5 = set_positions c (map (mat_vec c rot) (positions u4))
                                (u4\<lparr>calls := calls u4 @ [RotationMatrix]\<rparr>);
                         u6 = set_positions c (map (\<lambda>p. vadd c p COM) (positions u5)) u5
                     in (pack_into_box c (t_box S) u6, None)))))"

text \<open>Lines 122 to 169: the translation, then the rotation.\<close>

definition tube_normalize ::
  "collaborators \<Rightarrow> tube_setup \<Rightarrow> universe \<Rightarrow> universe \<times> py_error option" where
  "tube_normalize c S u =
     (case tube_translate c (t_solid_atoms S) (t_anchor_coordinates S) u of
        (u2, Some e) \<Rightarrow> (u2, Some e)
      | (u2, None) \<Rightarrow> tube_rotate c S u2)"

text \<open>
  Lines 178 to 183: the offsets of the liquid atoms that \<^verbatim>\<open>np.where\<close> selects.
  The offsets are double-precision values, and so is their norm.
\<close>

definition tube_contact_indices ::
  "collaborators \<Rightarrow> nat list \<Rightarrow> real \<Rightarrow> vec3 list \<Rightarrow> nat list" where
  "tube_contact_indices c not_pbc_indices spatial_extent_contact_layer
       vector_liquid_to_central_axis =
     np_where (map (\<lambda>v. fl_ge (f_norm c (take_cols not_pbc_indices v))
                          (Num spatial_extent_contact_layer))
       vector_liquid_to_central_axis)"

definition liquid_atoms_in_contact_positions_of ::
  "collaborators \<Rightarrow> nat list \<Rightarrow> real \<Rightarrow> vec3 list \<Rightarrow> vec3 list" where
  "liquid_atoms_in_contact_positions_of c not_pbc_indices spatial_extent_contact_layer
       vector_liquid_to_central_axis =
     map (\<lambda>j. vector_liquid_to_central_axis ! j)
       (tube_contact_indices c not_pbc_indices spatial_extent_contact_layer
          vector_liquid_to_central_axis)"

text \<open>
  Lines 194 to 202 and 209 to 216:
  \<^verbatim>\<open>tube_circumference * (angles + np.pi) / (2 * np.pi)\<close>.
\<close>

definition angular_component :: "collaborators \<Rightarrow> fl \<Rightarrow> fl \<Rightarrow> fl" where
  "angular_component c tube_circumference angle =
     f_div c (f_mul c tube_circumference (f_add c angle (f_pi c))) (f_mul c (Num 2) (f_pi c))"

definition angular_components ::
  "collaborators \<Rightarrow> nat list \<Rightarrow> fl \<Rightarrow> vec3 list \<Rightarrow> py_error + fl list" where
  "angular_components c not_pbc_indices tube_circumference vectors =
     (case py_index not_pbc_indices 1 of
        Inl e \<Rightarrow> Inl e
      | Inr a1 \<Rightarrow>
         (case py_index not_pbc_indices 0 of
            Inl e \<Rightarrow> Inl e
          | Inr a0 \<Rightarrow>
              Inr (map (\<lambda>v. angular_component c tube_circumference
                               (f_arctan2 c (comp3 v a1) (comp3 v a0))) vectors)))"

text \<open>
  Lines 174 to 218, after the normalization: what one frame appends to the four
  sequences. \<^verbatim>\<open>np.append\<close> flattens the array it appends.
\<close>

definition tube_project ::
  "collaborators \<Rightarrow> tube_setup \<Rightarrow> vec3 \<Rightarrow> vec3 list \<Rightarrow> vec3 list \<Rightarrow> tube_acc
     \<Rightarrow> py_error + tube_acc" where
  "tube_project c S solid_COM liquid_positions solid_positions acc =
     (let vector_liquid_to_central_axis = map (\<lambda>p. vsub c p solid_COM) liquid_positions;
          liquid_atoms_in_contact_positions =
            liquid_atoms_in_contact_positions_of c (t_not_pbc_indices S) (t_cutoff S)
              vector_liquid_to_central_axis;
          added1 = concat (map (\<lambda>v. map (\<lambda>k. f_add c (comp3 v k) (comp3 solid_COM k))
                                      (t_pbc_indices S)) liquid_atoms_in_contact_positions)
      in case angular_components c (t_not_pbc_indices S) (t_tube_circumference S)
                liquid_atoms_in_contact_positions of
           Inl e \<Rightarrow> Inl e
         | Inr angular_component_liquid_contact \<Rightarrow>
            (let vector_solid_to_central_axis = map (\<lambda>p. vsub c p solid_COM) solid_positions;
                 added_solid1 = concat (map (take_cols (t_pbc_indices S)) solid_positions)
             in case angular_components c (t_not_pbc_indices S) (t_tube_circumference S)
                       vector_solid_to_central_axis of
                  Inl e \<Rightarrow> Inl e
                | Inr angular_component_solid \<Rightarrow>
                    Inr \<lparr>tube_liquid_contact_coord1 = tube_liquid_contact_coord1 acc @ added1,
                         tube_liquid_contact_coord2 =
                           tube_liquid_contact_coord2 acc @ angular_component_liquid_contact,
                         solid_coord1 = solid_coord1 acc @ added_solid1,
                         solid_coord2 = solid_coord2 acc @ angular_component_solid\<rparr>))"

text \<open>One pass of the loop body, lines 118 to 218.\<close>

definition tube_frame ::
  "collaborators \<Rightarrow> tube_setup \<Rightarrow> nat \<Rightarrow> tube_acc \<Rightarrow> universe
     \<Rightarrow> universe \<times> (py_error + tube_acc)" where
  "tube_frame c S i acc u =
     (case tube_normalize c S (load_frame i u) of
        (u1, Some e) \<Rightarrow> (u1, Inl e)
      | (u1, None) \<Rightarrow>
         (case center_of_mass c (t_solid_atoms S) u1 of
            (u2, Inl e) \<Rightarrow> (u2, Inl e)
          | (u2, Inr solid_COM) \<Rightarrow>
              (u2, tube_project c S solid_COM (group_positions (t_liquid_atoms S) u2)
                     (group_positions (t_solid_atoms S) u2) acc)))"

fun tube_loop ::
  "collaborators \<Rightarrow> tube_setup \<Rightarrow> nat list \<Rightarrow> tube_acc \<Rightarrow> universe
     \<Rightarrow> universe \<times> (py_error + tube_acc)" where
  "tube_loop c S [] acc u = (u, Inr acc)"
| "tube_loop c S (i # rest) acc u =
     (case tube_frame c S i acc u of
        (u', Inl e) \<Rightarrow> (u', Inl e)
      | (u', Inr acc') \<Rightarrow> tube_loop c S rest acc' u')"

text \<open>Lines 220 to 224.\<close>

definition tube_finish :: "tube_acc \<Rightarrow> py_error + (fl \<times> fl) list \<times> (fl \<times> fl) list" where
  "tube_finish acc =
     (case np_column_stack (tube_liquid_contact_coord1 acc) (tube_liquid_contact_coord2 acc) of
        Inl e \<Rightarrow> Inl e
      | Inr liquid_contact_2d \<Rightarrow>
          (case np_column_stack (solid_coord1 acc) (solid_coord2 acc) of
             Inl e \<Rightarrow> Inl e
           | Inr solid_2d \<Rightarrow> Inr (liquid_contact_2d, solid_2d)))"

text \<open>
  What the function fixes before its frame loop, lines 86 to 113. The centre of mass of
  the solid group raises ValueError when no solid atom was selected. A missing
  \<^verbatim>\<open>tube_length_in_unit_cells\<close> or \<^verbatim>\<open>tube_radius\<close> is Python's \<^verbatim>\<open>None\<close>;
  multiplying it raises TypeError.
\<close>

definition tube_prepare ::
  "collaborators \<Rightarrow> universe \<Rightarrow> real list \<Rightarrow> real \<Rightarrow> real option \<Rightarrow> int option \<Rightarrow> nat list
     \<Rightarrow> universe \<times> (py_error + tube_setup)" where
  "tube_prepare c universe0 topology spatial_extent_contact_layer tube_radius
       tube_length_in_unit_cells pbc_indices =
     (if \<exists>k \<in> set pbc_indices. 3 \<le> k then (universe0, Inl IndexError)
      else
        let (solid_atoms, u1) = select_atoms solid_names universe0;
            (liquid_atoms, u2) = select_atoms [''O'', ''H''] u1
        in case center_of_mass c solid_atoms u2 of
             (u3, Inl e) \<Rightarrow> (u3, Inl e)
           | (u3, Inr anchor_coordinates) \<Rightarrow>
              (case get_atom_ids_on_same_tube_axis c (group_positions solid_atoms u3)
                      tube_length_in_unit_cells (not_pbc_of pbc_indices) of
                 Inl e \<Rightarrow> (u3, Inl e)
               | Inr indices_atoms_anchor_rotation \<Rightarrow>
                  (case tube_radius of
                     None \<Rightarrow> (u3, Inl TypeError)
                   | Some r \<Rightarrow>
                       (u3, Inr \<lparr>t_box = topology, t_cutoff = spatial_extent_contact_layer,
                                 t_pbc_indices = pbc_indices,
                                 t_not_pbc_indices = not_pbc_of pbc_indices,
                                 t_periodic_vector = periodic_vector_of pbc_indices,
                                 t_solid_atoms = solid_atoms, t_liquid_atoms = liquid_atoms,
                                 t_anchor_coordinates = anchor_coordinates,
                                 t_indices_atoms_anchor_rotation = indices_atoms_anchor_rotation,
                                 t_tube_circumference =
                                   f_mul c (f_mul c (Num 2) (f_pi c)) (Num r)\<rparr>))))"

text \<open>\<^verbatim>\<open>_compute_distribution_for_system_with_one_periodic_direction\<close>.\<close>

definition compute_distribution_for_system_with_one_periodic_direction ::
  "collaborators \<Rightarrow> universe \<Rightarrow> real list \<Rightarrow> real \<Rightarrow> real option \<Rightarrow> int option \<Rightarrow> nat list
     \<Rightarrow> int \<Rightarrow> int \<Rightarrow> int
     \<Rightarrow> universe \<times> (py_error + (fl \<times> fl) list \<times> (fl \<times> fl) list)" where
  "compute_distribution_for_system_with_one_periodic_direction c universe0 topology
       spatial_extent_contact_layer tube_radius tube_length_in_unit_cells pbc_indices
       start_frame end_frame frame_frequency =
     (case tube_prepare c universe0 topology spatial_extent_contact_layer tube_radius
             tube_length_in_unit_cells pbc_indices of
        (u3, Inl e) \<Rightarrow> (u3, Inl e)
      | (u3, Inr S) \<Rightarrow>
         (case frames_of (length (trajectory u3)) start_frame end_frame frame_frequency of
            Inl e \<Rightarrow> (u3, Inl e)
          | Inr frames \<Rightarrow>
             (case tube_loop c S frames
                     \<lparr>tube_liquid_contact_coord1 = [], tube_liquid_contact_coord2 = [],
                      solid_coord1 = [], solid_coord2 = []\<rparr> u3 of
                (u4, Inl e) \<Rightarrow> (u4, Inl e)
              | (u4, Inr acc) \<Rightarrow> (u4, tube_finish acc))))"

section \<open>The public entry point\<close>

text \<open>
  \<^verbatim>\<open>compute_spatial_distribution_of_atoms_on_interface\<close>: the tube pipeline when
  \<^verbatim>\<open>len(pbc_indices) == 1\<close>, the slab pipeline otherwise.
\<close>

definition compute_spatial_distribution_of_atoms_on_interface ::
  "collaborators \<Rightarrow> universe \<Rightarrow> real list \<Rightarrow> real \<Rightarrow> nat list \<Rightarrow> int \<Rightarrow> int \<Rightarrow> int
     \<Rightarrow> real option \<Rightarrow> int option
     \<Rightarrow> universe \<times> (py_error + (fl \<times> fl) list \<times> (fl \<times> fl) list)" where
  "compute_spatial_distribution_of_atoms_on_interface c position_universe topology
       spatial_extent_contact_layer pbc_indices start_frame end_frame frame_frequency
       tube_radius tube_length_in_unit_cells =
     (if length pbc_indices = 1
      then compute_distribution_for_system_with_one_periodic_direction c position_universe
             topology spatial_extent_contact_layer tube_radius tube_length_in_unit_cells
             pbc_indices start_frame end_frame frame_frequency
      else compute_distribution_for_system_with_two_periodic_directions c position_universe
             topology spatial_extent_contact_layer pbc_indices start_frame end_frame
             frame_frequency)"

section \<open>Sample collaborators\<close>

text \<open>
  One instance of the floating-point operations, for running the pipelines on sample
  inputs: arithmetic without rounding on the finite numbers, and the IEEE rules for
  the infinities and \<^verbatim>\<open>nan\<close> (a non-zero number divided by zero is an infinity,
  \<^verbatim>\<open>0/0\<close>, \<^verbatim>\<open>inf - inf\<close> and \<^verbatim>\<open>0 * inf\<close> are \<^verbatim>\<open>nan\<close>).
\<close>

fun exact_add :: "fl \<Rightarrow> fl \<Rightarrow> fl" where
  "exact_add (Num x) (Num y) = Num (x + y)"
| "exact_add NaN _ = NaN"
| "exact_add _ NaN = NaN"
| "exact_add PInf NInf = NaN"
| "exact_add NInf PInf = NaN"
| "exact_add PInf _ = PInf"
| "exact_add _ PInf = PInf"
| "exact_add NInf _ = NInf"
| "exact_add _ NInf = NInf"

definition exact_sub :: "fl \<Rightarrow> fl \<Rightarrow> fl" where
  "exact_sub x y = exact_add x (fl_neg y)"

fun exact_mul :: "fl \<Rightarrow> fl \<Rightarrow> fl" where
  "exact_mul (Num x) (Num y) = Num (x * y)"
| "exact_mul NaN _ = NaN"
| "exact_mul _ NaN = NaN"
| "exact_mul PInf (Num y) = (if y = 0 then NaN else if 0 < y then PInf else NInf)"
| "exact_mul NInf (Num y) = (if y = 0 then NaN else if 0 < y then NInf else PInf)"
| "exact_mul (Num x) PInf = (if x = 0 then NaN else if 0 < x then PInf else NInf)"
| "exact_mul (Num x) NInf = (if x = 0 then NaN else if 0 < x then NInf else PInf)"
| "exact_mul PInf PInf = PInf"
| "exact_mul NInf NInf = PInf"
| "exact_mul PInf NInf = NInf"
| "exact_mul NInf PInf = NInf"

fun exact_div :: "fl \<Rightarrow> fl \<Rightarrow> fl" where
  "exact_div (Num x) (Num y) =
     (if y = 0 then (if x = 0 then NaN else if 0 < x then PInf else NInf) else Num (x / y))"
| "exact_div NaN _ = NaN"
| "exact_div _ NaN = NaN"
| "exact_div (Num x) _ = Num 0"
| "exact_div PInf (Num y) = (if 0 \<le> y then PInf else NInf)"
| "exact_div NInf (Num y) = (if 0 \<le> y then NInf else PInf)"
| "exact_div _ _ = NaN"

definition exact_sum :: "fl list \<Rightarrow> fl" where
  "exact_sum xs = foldl exact_add (Num 0) xs"

definition exact_dot :: "fl list \<Rightarrow> fl list \<Rightarrow> fl" where
  "exact_dot xs ys = exact_sum (map (\<lambda>(x, y). exact_mul x y) (zip xs ys))"

fun exact_sqrt :: "fl \<Rightarrow> fl" where
  "exact_sqrt (Num x) = (if 0 \<le> x then Num (sqrt x) else NaN)"
| "exact_sqrt PInf = PInf"
| "exact_sqrt _ = NaN"

definition exact_norm :: "fl list \<Rightarrow> fl" where
  "exact_norm xs = exact_sqrt (exact_sum (map (\<lambda>x. exact_mul x x) xs))"

text \<open>The mean of no element is \<^verbatim>\<open>0/0\<close>.\<close>

definition exact_mean :: "fl list \<Rightarrow> fl" where
  "exact_mean xs = exact_div (exact_sum xs) (Num (real (length xs)))"

fun exact_arccos :: "fl \<Rightarrow> fl" where
  "exact_arccos (Num x) = (if - 1 \<le> x \<and> x \<le> 1 then Num (arccos x) else NaN)"
| "exact_arccos _ = NaN"

text \<open>
  The two-argument arctangent, with values in \<open>(-\<pi>, \<pi>]\<close> on the finite numbers.
\<close>

definition arctan2 :: "real \<Rightarrow> real \<Rightarrow> real" where
  "arctan2 y x =
     (if 0 < x then arctan (y / x)
      else if x < 0 then (if 0 \<le> y then arctan (y / x) + pi else arctan (y / x) - pi)
      else if 0 < y then pi / 2
      else if y < 0 then - (pi / 2)
      else 0)"

fun exact_arctan2 :: "fl \<Rightarrow> fl \<Rightarrow> fl" where
  "exact_arctan2 (Num y) (Num x) = Num (arctan2 y x)"
| "exact_arctan2 NaN _ = NaN"
| "exact_arctan2 _ NaN = NaN"
| "exact_arctan2 (Num y) PInf = Num 0"
| "exact_arctan2 (Num y) NInf = (if 0 \<le> y then Num pi else Num (- pi))"
| "exact_arctan2 PInf (Num x) = Num (pi / 2)"
| "exact_arctan2 NInf (Num x) = Num (- (pi / 2))"
| "exact_arctan2 PInf PInf = Num (pi / 4)"
| "exact_arctan2 PInf NInf = Num (3 * pi / 4)"
| "exact_arctan2 NInf PInf = Num (- (pi / 4))"
| "exact_arctan2 NInf NInf = Num (- (3 * pi / 4))"

text \<open>
  One instance of the library operations: the wrap of an orthorhombic box, the centre
  of mass of equal masses and an insertion argsort (\<^verbatim>\<open>nan\<close> last).
\<close>

fun wrap1 :: "real \<Rightarrow> fl \<Rightarrow> fl" where
  "wrap1 l (Num v) = Num (v - l * real_of_int \<lfloor>v / l\<rfloor>)"
| "wrap1 l _ = NaN"

definition sample_wrap :: "real list \<Rightarrow> vec3 list \<Rightarrow> vec3 list" where
  "sample_wrap box ps =
     map (\<lambda>(x, y, z). (wrap1 (box ! 0) x, wrap1 (box ! 1) y, wrap1 (box ! 2) z)) ps"

definition sample_com :: "nat list \<Rightarrow> vec3 list \<Rightarrow> vec3" where
  "sample_com grp ps =
     (exact_mean (map (\<lambda>i. comp3 (ps ! i) 0) grp),
      exact_mean (map (\<lambda>i. comp3 (ps ! i) 1) grp),
      exact_mean (map (\<lambda>i. comp3 (ps ! i) 2) grp))"

definition fl_lt_nan_last :: "fl \<Rightarrow> fl \<Rightarrow> bool" where
  "fl_lt_nan_last x y = (if y = NaN then x \<noteq> NaN else fl_le x y \<and> \<not> fl_le y x)"

fun insert_index :: "fl list \<Rightarrow> nat \<Rightarrow> nat list \<Rightarrow> nat list" where
  "insert_index keys i [] = [i]"
| "insert_index keys i (j # js) =
     (if fl_lt_nan_last (keys ! j) (keys ! i) then j # insert_index keys i js else i # j # js)"

definition sample_argsort :: "fl list \<Rightarrow> nat list" where
  "sample_argsort keys = foldr (insert_index keys) [0 ..< length keys] []"

text \<open>
  Modelled from the spec: \<^verbatim>\<open>utils.rotation_matrix\<close> is not among the sources; the
  specification describes it as the standard axis-angle rotation (Rodrigues' formula),
  the identity for angle 0.
\<close>

fun exact_cos :: "fl \<Rightarrow> fl" where
  "exact_cos (Num x) = Num (cos x)"
| "exact_cos _ = NaN"

fun exact_sin :: "fl \<Rightarrow> fl" where
  "exact_sin (Num x) = Num (sin x)"
| "exact_sin _ = NaN"

definition spec_rotation_matrix :: "real \<times> real \<times> real \<Rightarrow> fl \<Rightarrow> vec3 \<times> vec3 \<times> vec3" where
  "spec_rotation_matrix axis angle =
     (case axis of (kx, ky, kz) \<Rightarrow>
        (let co = exact_cos angle; si = exact_sin angle;
             e = (\<lambda>d a b s. exact_add (exact_add (exact_mul (Num d) co) (exact_mul (Num s) si))
                    (exact_mul (Num (a * b)) (exact_sub (Num 1) co)))
         in ((e 1 kx kx 0, e 0 kx ky (- kz), e 0 kx kz ky),
             (e 0 ky kx kz, e 1 ky ky 0, e 0 ky kz (- kx)),
             (e 0 kz kx (- ky), e 0 kz ky kx, e 1 kz kz 0))))"

definition sample_collaborators :: collaborators where
  "sample_collaborators =
     \<lparr>wrap_box = sample_wrap, com_of = sample_com, argsort = sample_argsort,
      rotation_matrix = spec_rotation_matrix, to_float32 = (\<lambda>x. x),
      f_add = exact_add, f_sub = exact_sub, f_mul = exact_mul, f_div = exact_div,
      f_dot = exact_dot, f_norm = exact_norm, f_norm_single = exact_norm,
      f_mean_single = exact_mean, f_arccos = exact_arccos, f_arctan2 = exact_arctan2,
      f_pi = Num pi\<rparr>"

text \<open>
  A sample system in a cubic box of edge 10: one carbon atom and two oxygen atoms, three
  identical frames in which the second oxygen lies outside the box, and a current time
  step in which it sits elsewhere.
\<close>

definition sample_box :: "real list" where
  "sample_box = [10, 10, 10, 90, 90, 90]"

definition sample_frame :: "vec3 list" where
  "sample_frame = [(Num 1, Num 1, Num 5), (Num 2, Num 3, Num (11 / 2)), (Num 4, Num 4, Num 11)]"

definition sample_universe :: universe where
  "sample_universe =
     \<lparr>names = [''C'', ''O'', ''O''],
      trajectory = [sample_frame, sample_frame, sample_frame],
      positions = [(Num 1, Num 1, Num 5), (Num 2, Num 3, Num (11 / 2)), (Num 4, Num 1, Num 1)],
      calls = []\<rparr>"

text \<open>
  A sample tube along the third axis in the same box: the carbon atom at (3, 1, 4) in
  the current time step and one unit further along the tube in the one frame of the
  trajectory, one oxygen atom two units from the carbon in the confined plane and one
  oxygen atom one unit from it.
\<close>

definition sample_tube_frame :: "vec3 list" where
  "sample_tube_frame =
     [(Num 3, Num 1, Num 5), (Num 1, Num 1, Num (11 / 2)), (Num 2, Num 1, Num 11)]"

definition sample_tube :: universe where
  "sample_tube =
     \<lparr>names = [''C'', ''O'', ''O''],
      trajectory = [sample_tube_frame],
      positions = [(Num 3, Num 1, Num 4), (Num 1, Num 1, Num (11 / 2)), (Num 2, Num 1, Num 11)],
      calls = []\<rparr>"

text \<open>A universe with one oxygen atom and no solid atom, and one with no atom.\<close>

definition sample_liquid_only :: universe where
  "sample_liquid_only =
     \<lparr>names = [''O''], trajectory = [[(Num 1, Num 1, Num 5)]],
      positions = [(Num 1, Num 1, Num 5)], calls = []\<rparr>"

section \<open>Properties read from the specification\<close>

text \<open>
  A call fails before any frame: it raises, and the log holds no frame load beyond
  those it started with.
\<close>

fun is_load :: "call \<Rightarrow> bool" where
  "is_load (LoadFrame i) = True"
| "is_load _ = False"

definition fails_before_any_frame :: "universe \<Rightarrow> universe \<times> (py_error + 'a) \<Rightarrow> bool" where
  "fails_before_any_frame u0 r =
     (isl (snd r) \<and> filter is_load (calls (fst r)) = filter is_load (calls u0))"


text \<open>
  The translation as the specification words it: the centre of mass of a group in the
  current frame minus the centre of mass of the same group before the loop.
\<close>

definition spec_translation :: "collaborators \<Rightarrow> nat list \<Rightarrow> vec3 list \<Rightarrow> vec3 list \<Rightarrow> vec3" where
  "spec_translation c grp positions_before_loop positions_in_frame =
     vsub c (com_of c grp positions_in_frame) (com_of c grp positions_before_loop)"

text \<open>The two liquid sequences have one length, and so have the two solid sequences.\<close>

definition columns_paired :: "tube_acc \<Rightarrow> bool" where
  "columns_paired acc =
     (length (tube_liquid_contact_coord1 acc) = length (tube_liquid_contact_coord2 acc) \<and>
      length (solid_coord1 acc) = length (solid_coord2 acc))"

section \<open>How the library calls change the universe\<close>

lemma vsub_components:
  "vsub c p d = (f_sub c (fst p) (fst d), f_sub c (fst (snd p)) (fst (snd d)),
                 f_sub c (snd (snd p)) (snd (snd d)))"
  by (cases p; cases d) auto

lemma vadd_components:
  "vadd c p d = (f_add c (fst p) (fst d), f_add c (fst (snd p)) (fst (snd d)),
                 f_add c (snd (snd p)) (snd (snd d)))"
  by (cases p; cases d) auto

lemma vcast_components:
  "vcast c p = (to_float32 c (fst p), to_float32 c (fst (snd p)), to_float32 c (snd (snd p)))"
  by (cases p) auto

lemma comp3_components:
  "comp3 p 0 = fst p" "comp3 p 1 = fst (snd p)" "comp3 p 2 = snd (snd p)"
  "comp3 p (Suc 0) = fst (snd p)"
  by (cases p; simp)+

lemma pack_into_box_simps:
  "calls (pack_into_box c box u) = calls u @ [PackIntoBox]"
  "positions (pack_into_box c box u) = wrap_box c box (positions u)"
  "names (pack_into_box c box u) = names u"
  "trajectory (pack_into_box c box u) = trajectory u"
  by (simp_all add: pack_into_box_def)

lemma select_atoms_simps:
  "fst (select_atoms nms u) = filter (\<lambda>i. names u ! i \<in> set nms) [0 ..< length (names u)]"
  "calls (snd (select_atoms nms u)) = calls u @ [SelectAtoms nms]"
  "positions (snd (select_atoms nms u)) = positions u"
  "names (snd (select_atoms nms u)) = names u"
  "trajectory (snd (select_atoms nms u)) = trajectory u"
  by (simp_all add: select_atoms_def)

lemma center_of_mass_simps:
  "snd (center_of_mass c grp u) =
     (if grp = [] then Inl ValueError else Inr (com_of c grp (positions u)))"
  "calls (fst (center_of_mass c grp u)) = calls u @ [CenterOfMass grp]"
  "positions (fst (center_of_mass c grp u)) = positions u"
  "names (fst (center_of_mass c grp u)) = names u"
  "trajectory (fst (center_of_mass c grp u)) = trajectory u"
  by (simp_all add: center_of_mass_def)

lemma load_frame_simps:
  "calls (load_frame i u) = calls u @ [LoadFrame i]"
  "positions (load_frame i u) = trajectory u ! i"
  "names (load_frame i u) = names u"
  "trajectory (load_frame i u) = trajectory u"
  by (simp_all add: load_frame_def)

lemma set_positions_simps:
  "calls (set_positions c ps u) = calls u"
  "positions (set_positions c ps u) = map (vcast c) ps"
  "names (set_positions c ps u) = names u"
  "trajectory (set_positions c ps u) = trajectory u"
  by (simp_all add: set_positions_def)

lemma translate_all_simps:
  "calls (translate_all c d u) = calls u"
  "positions (translate_all c d u) = map (\<lambda>p. vcast c (vsub c p d)) (positions u)"
  "names (translate_all c d u) = names u"
  "trajectory (translate_all c d u) = trajectory u"
  by (simp_all add: translate_all_def set_positions_simps comp_def)

lemmas state_simps = pack_into_box_simps select_atoms_simps center_of_mass_simps
  load_frame_simps set_positions_simps translate_all_simps

lemma all_atoms_simps:
  "all_atoms (pack_into_box c box u) = all_atoms u"
  "all_atoms (load_frame i u) = all_atoms u"
  "all_atoms (translate_all c d u) = all_atoms u"
  "all_atoms (fst (center_of_mass c grp u)) = all_atoms u"
  "all_atoms (snd (select_atoms nms u)) = all_atoms u"
  by (simp_all add: all_atoms_def state_simps)

lemma all_atoms_empty: "(all_atoms u = []) = (names u = [])"
  by (simp add: all_atoms_def)

lemma slab_translate_simps:
  "snd (slab_translate c a u) = (if all_atoms u = [] then Some ValueError else None)"
  "calls (fst (slab_translate c a u)) = calls u @ [CenterOfMass (all_atoms u)]"
  "positions (fst (slab_translate c a u)) =
     (if all_atoms u = [] then positions u
      else map (\<lambda>p. vcast c (vsub c p (vsub c (com_of c (all_atoms u) (positions u)) a)))
             (positions u))"
  "names (fst (slab_translate c a u)) = names u"
  "trajectory (fst (slab_translate c a u)) = trajectory u"
  by (simp_all add: slab_translate_def center_of_mass_def Let_def translate_all_simps)

lemma tube_translate_simps:
  "snd (tube_translate c solid a u) = (if solid = [] then Some ValueError else None)"
  "calls (fst (tube_translate c solid a u)) = calls u @ [CenterOfMass solid]"
  "positions (fst (tube_translate c solid a u)) =
     (if solid = [] then positions u
      else map (\<lambda>p. vcast c (vsub c p (vsub c (com_of c solid (positions u)) a))) (positions u))"
  "names (fst (tube_translate c solid a u)) = names u"
  "trajectory (fst (tube_translate c solid a u)) = trajectory u"
  by (simp_all add: tube_translate_def center_of_mass_def Let_def translate_all_simps)

lemma slab_normalize_simps:
  "snd (slab_normalize c box a u) = (if all_atoms u = [] then Some ValueError else None)"
  "calls (fst (slab_normalize c box a u)) =
     calls u @ [PackIntoBox, CenterOfMass (all_atoms u)]
       @ (if all_atoms u = [] then [] else [PackIntoBox])"
  "positions (fst (slab_normalize c box a u)) =
     (if all_atoms u = [] then wrap_box c box (positions u)
      else wrap_box c box
        (map (\<lambda>p. vcast c (vsub c p
                (vsub c (com_of c (all_atoms u) (wrap_box c box (positions u))) a)))
           (wrap_box c box (positions u))))"
  "names (fst (slab_normalize c box a u)) = names u"
  "trajectory (fst (slab_normalize c box a u)) = trajectory u"
  by (simp_all add: slab_normalize_def split_def pack_into_box_simps slab_translate_simps
      all_atoms_simps split: option.splits)

lemma slab_frame_calls:
  "calls (fst (slab_frame c S k i acc u)) =
     calls u @ [LoadFrame i, PackIntoBox, CenterOfMass (all_atoms u)]
       @ (if all_atoms u = [] then [] else [PackIntoBox, CenterOfMass (s_solid_atoms S)])"
  by (simp add: slab_frame_def split_def slab_normalize_simps state_simps all_atoms_simps
      split: sum.splits option.splits)

lemma slab_frame_trajectory:
  "trajectory (fst (slab_frame c S k i acc u)) = trajectory u"
  by (simp add: slab_frame_def split_def slab_normalize_simps state_simps
      split: sum.splits option.splits)

lemma slab_frame_names:
  "names (fst (slab_frame c S k i acc u)) = names u"
  by (simp add: slab_frame_def split_def slab_normalize_simps state_simps
      split: sum.splits option.splits)


lemma tube_rotate_trajectory:
  "trajectory (fst (tube_rotate c S u)) = trajectory u"
  by (simp add: tube_rotate_def Let_def split_def state_simps split: sum.splits)

lemma tube_rotate_names:
  "names (fst (tube_rotate c S u)) = names u"
  by (simp add: tube_rotate_def Let_def split_def state_simps split: sum.splits)

lemma tube_normalize_if:
  "tube_normalize c S u =
     (if t_solid_atoms S = [] then (fst (center_of_mass c [] u), Some ValueError)
      else tube_rotate c S (fst (tube_translate c (t_solid_atoms S) (t_anchor_coordinates S) u)))"
  by (simp add: tube_normalize_def split_def tube_translate_simps prod_eq_iff
      tube_translate_def center_of_mass_def split: option.splits)


lemma tube_normalize_trajectory:
  "trajectory (fst (tube_normalize c S u)) = trajectory u"
  by (simp add: tube_normalize_if tube_rotate_trajectory tube_translate_simps state_simps)

lemma tube_normalize_names:
  "names (fst (tube_normalize c S u)) = names u"
  by (simp add: tube_normalize_if tube_rotate_names tube_translate_simps state_simps)

lemma tube_normalize_solid:
  "snd (tube_normalize c S u) = None \<Longrightarrow> t_solid_atoms S \<noteq> []"
  by (auto simp: tube_normalize_if)

lemma tube_frame_if:
  "tube_frame c S i acc u =
     (if snd (tube_normalize c S (load_frame i u)) = None
      then (fst (center_of_mass c (t_solid_atoms S) (fst (tube_normalize c S (load_frame i u)))),
            tube_project c S
              (com_of c (t_solid_atoms S) (positions (fst (tube_normalize c S (load_frame i u)))))
              (group_positions (t_liquid_atoms S) (fst (tube_normalize c S (load_frame i u))))
              (group_positions (t_solid_atoms S) (fst (tube_normalize c S (load_frame i u)))) acc)
      else (fst (tube_normalize c S (load_frame i u)),
            Inl (the (snd (tube_normalize c S (load_frame i u))))))"
proof (cases "snd (tube_normalize c S (load_frame i u))")
  case None
  from tube_normalize_solid[OF None] None show ?thesis
    by (simp add: tube_frame_def split_def center_of_mass_def group_positions_def)
next
  case (Some e)
  then show ?thesis
    by (simp add: tube_frame_def split_def)
qed


lemma tube_frame_trajectory:
  "trajectory (fst (tube_frame c S i acc u)) = trajectory u"
  by (simp add: tube_frame_if tube_normalize_trajectory state_simps)

lemma tube_frame_names:
  "names (fst (tube_frame c S i acc u)) = names u"
  by (simp add: tube_frame_if tube_normalize_names state_simps)

section \<open>What the preparation steps return\<close>

lemma not_pbc_of_single:
  "k < 3 \<Longrightarrow> length (not_pbc_of [k]) = 2"
  by (auto simp: not_pbc_of_def)

lemma not_pbc_of_one:
  assumes "length pbc = 1" and "\<forall>k \<in> set pbc. k < 3"
  shows "length (not_pbc_of pbc) = 2"
proof -
  obtain k where "pbc = [k]" using assms(1) by (cases pbc) auto
  with assms(2) not_pbc_of_single show ?thesis by simp
qed

lemma get_atom_ids_missing_length:
  "ps \<noteq> [] \<Longrightarrow> get_atom_ids_on_same_tube_axis c ps None np = Inl TypeError"
  by (cases ps) (simp_all add: get_atom_ids_on_same_tube_axis_def Let_def)

lemma get_atom_ids_given_length:
  "ps \<noteq> [] \<Longrightarrow> \<exists>ids. get_atom_ids_on_same_tube_axis c ps (Some n) np = Inr ids"
  by (cases ps) (simp_all add: get_atom_ids_on_same_tube_axis_def Let_def)

lemma get_atom_ids_error:
  "get_atom_ids_on_same_tube_axis c ps l np = Inl e \<Longrightarrow> e = IndexError \<or> e = TypeError"
  by (cases ps; cases l) (simp_all add: get_atom_ids_on_same_tube_axis_def Let_def)

lemma group_positions_empty: "(group_positions grp u = []) = (grp = [])"
  by (simp add: group_positions_def)

lemma tube_prepare_if:
  "tube_prepare c u topo cutoff r l pbc =
     (if \<exists>k \<in> set pbc. 3 \<le> k then (u, Inl IndexError)
      else
        (u\<lparr>calls := calls u @ [SelectAtoms solid_names, SelectAtoms [''O'', ''H''],
                               CenterOfMass (fst (select_atoms solid_names u))]\<rparr>,
         if fst (select_atoms solid_names u) = [] then Inl ValueError
         else case get_atom_ids_on_same_tube_axis c
                     (map (\<lambda>i. positions u ! i) (fst (select_atoms solid_names u)))
                     l (not_pbc_of pbc) of
                Inl e \<Rightarrow> Inl e
              | Inr ids \<Rightarrow>
                 (case r of
                    None \<Rightarrow> Inl TypeError
                  | Some radius \<Rightarrow>
                      Inr \<lparr>t_box = topo, t_cutoff = cutoff, t_pbc_indices = pbc,
                           t_not_pbc_indices = not_pbc_of pbc,
                           t_periodic_vector = periodic_vector_of pbc,
                           t_solid_atoms = fst (select_atoms solid_names u),
                           t_liquid_atoms = fst (select_atoms [''O'', ''H''] u),
                           t_anchor_coordinates =
                             com_of c (fst (select_atoms solid_names u)) (positions u),
                           t_indices_atoms_anchor_rotation = ids,
                           t_tube_circumference = f_mul c (f_mul c (Num 2) (f_pi c)) (Num radius)\<rparr>)))"
  by (simp add: tube_prepare_def Let_def split_def select_atoms_def center_of_mass_def
      group_positions_def split: sum.splits option.splits)

lemma tube_prepare_calls:
  "filter is_load (calls (fst (tube_prepare c u topo cutoff r l pbc))) = filter is_load (calls u)"
  by (simp add: tube_prepare_if)

lemma tube_prepare_calls_exact:
  "calls (fst (tube_prepare c u topo cutoff r l pbc)) =
     (if \<exists>k \<in> set pbc. 3 \<le> k then calls u
      else calls u @ [SelectAtoms solid_names, SelectAtoms [''O'', ''H''],
                      CenterOfMass (fst (select_atoms solid_names u))])"
  by (simp add: tube_prepare_if)


lemma tube_prepare_state:
  "names (fst (tube_prepare c u topo cutoff r l pbc)) = names u"
  "positions (fst (tube_prepare c u topo cutoff r l pbc)) = positions u"
  by (simp_all add: tube_prepare_if)

lemma tube_prepare_missing:
  assumes "r = None \<or> l = None"
  shows "snd (tube_prepare c u topo cutoff r l pbc) =
           Inl (if \<exists>k \<in> set pbc. 3 \<le> k then IndexError
                else if fst (select_atoms solid_names u) = [] then ValueError
                else TypeError)"
proof (cases "(\<exists>k \<in> set pbc. 3 \<le> k) \<or> fst (select_atoms solid_names u) = []")
  case True
  then show ?thesis by (auto simp: tube_prepare_if)
next
  case False
  then have ne: "map (\<lambda>i. positions u ! i) (fst (select_atoms solid_names u)) \<noteq> []" by simp
  show ?thesis
  proof (cases l)
    case None
    with False get_atom_ids_missing_length[OF ne] show ?thesis
      by (simp add: tube_prepare_if)
  next
    case (Some n)
    with assms have r: "r = None" by simp
    obtain ids where "get_atom_ids_on_same_tube_axis c
        (map (\<lambda>i. positions u ! i) (fst (select_atoms solid_names u))) (Some n) (not_pbc_of pbc)
        = Inr ids"
      using get_atom_ids_given_length[OF ne] by blast
    with False Some r show ?thesis
      by (simp add: tube_prepare_if)
  qed
qed

lemma tube_prepare_setup:
  assumes "tube_prepare c u topo cutoff r l pbc = (u3, Inr S)"
  shows "t_pbc_indices S = pbc"
    and "t_not_pbc_indices S = not_pbc_of pbc"
    and "t_solid_atoms S = fst (select_atoms solid_names u)"
    and "t_anchor_coordinates S = com_of c (t_solid_atoms S) (positions u)"
    and "\<forall>k \<in> set pbc. k < 3"
    and "\<exists>n. r = Some n \<and> t_tube_circumference S = f_mul c (f_mul c (Num 2) (f_pi c)) (Num n)"
    and "t_solid_atoms S \<noteq> []"
    and "t_box S = topo"
    and "t_cutoff S = cutoff"
    and "t_periodic_vector S = periodic_vector_of pbc"
    and "t_liquid_atoms S = fst (select_atoms [''O'', ''H''] u)"
    and "names u3 = names u"
    and "trajectory u3 = trajectory u"
  using assms
  by (auto simp: tube_prepare_if split: if_splits sum.splits option.splits)

lemma select_atoms_in_range:
  "j \<in> set (fst (select_atoms nms u)) \<Longrightarrow> j < length (names u)"
  by (simp add: select_atoms_def)

lemma slab_prepare_if:
  "slab_prepare c u topo cutoff pbc =
     (if \<exists>k \<in> set pbc. 3 \<le> k then (u, Inl IndexError)
      else
        (u\<lparr>positions := wrap_box c topo (positions u),
           calls := calls u @ [PackIntoBox, SelectAtoms solid_names, SelectAtoms [''O''],
                               CenterOfMass (all_atoms u)]\<rparr>,
         if names u = [] then Inl ValueError
         else Inr \<lparr>s_box = topo, s_cutoff = cutoff, s_pbc_indices = pbc,
                   s_not_pbc_indices = not_pbc_of pbc,
                   s_solid_atoms = fst (select_atoms solid_names u),
                   s_liquid_atoms = fst (select_atoms [''O''] u),
                   s_anchor_coordinates =
                     com_of c (all_atoms u) (wrap_box c topo (positions u))\<rparr>))"
  by (simp add: slab_prepare_def Let_def split_def select_atoms_def center_of_mass_def
      pack_into_box_def all_atoms_def)

lemma slab_prepare_calls:
  "filter is_load (calls (fst (slab_prepare c u topo cutoff pbc))) = filter is_load (calls u)"
  by (simp add: slab_prepare_if)

lemma slab_prepare_trajectory:
  "trajectory (fst (slab_prepare c u topo cutoff pbc)) = trajectory u"
  by (simp add: slab_prepare_if)

lemma slab_prepare_setup:
  assumes "slab_prepare c u topo cutoff pbc = (u4, Inr S)"
  shows "s_pbc_indices S = pbc"
    and "s_not_pbc_indices S = not_pbc_of pbc"
    and "s_solid_atoms S = fst (select_atoms solid_names u)"
    and "s_anchor_coordinates S = com_of c (all_atoms u) (wrap_box c topo (positions u))"
    and "\<forall>k \<in> set pbc. k < 3"
    and "s_box S = topo"
    and "names u4 = names u"
    and "names u \<noteq> []"
    and "trajectory u4 = trajectory u"
  using assms
  by (auto simp: slab_prepare_if split: if_splits)

section \<open>Frames in the log\<close>

lemma slab_loop_keeps_calls:
  "set (calls u) \<subseteq> set (calls (fst (slab_loop c S fs acc u)))"
proof (induction fs arbitrary: acc u)
  case Nil
  show ?case by simp
next
  case (Cons f fs)
  obtain k i where f: "f = (k, i)" by (cases f)
  obtain u' r where fr: "slab_frame c S k i acc u = (u', r)" by (cases "slab_frame c S k i acc u")
  have sub: "set (calls u) \<subseteq> set (calls u')"
    using slab_frame_calls[of c S k i acc u] fr by auto
  show ?case
  proof (cases r)
    case (Inl e)
    with f fr sub show ?thesis by simp
  next
    case (Inr acc')
    with f fr sub Cons.IH[of u' acc'] show ?thesis by auto
  qed
qed

lemma slab_loop_first_load:
  "LoadFrame i \<in> set (calls (fst (slab_loop c S ((k, i) # rest) acc u)))"
proof -
  obtain u' r where fr: "slab_frame c S k i acc u = (u', r)" by (cases "slab_frame c S k i acc u")
  have mem: "LoadFrame i \<in> set (calls u')"
    using slab_frame_calls[of c S k i acc u] fr by auto
  show ?thesis
  proof (cases r)
    case (Inl e)
    with fr mem show ?thesis by simp
  next
    case (Inr acc')
    with fr mem slab_loop_keeps_calls[of u' c S rest acc'] show ?thesis by auto
  qed
qed

lemma slab_run_loads_first_frame:
  assumes "\<forall>k \<in> set pbc. k < 3" and "names u \<noteq> []"
      and "py_int_truediv (e - s) f = Inr nb" and "0 \<le> nb"
      and "frames_of (length (trajectory u)) s e f = Inr (i # rest)"
  shows "LoadFrame i \<in> set (calls (fst
           (compute_distribution_for_system_with_two_periodic_directions c u topo cutoff pbc s e f)))"
proof -
  from assms(1) have neg: "\<not> (\<exists>k \<in> set pbc. 3 \<le> k)" by auto
  define u4 where "u4 = fst (slab_prepare c u topo cutoff pbc)"
  obtain S where prep: "slab_prepare c u topo cutoff pbc = (u4, Inr S)"
    using neg assms(2) by (simp add: u4_def slab_prepare_if)
  have tr: "trajectory u4 = trajectory u"
    by (simp add: u4_def slab_prepare_trajectory)
  define acc0 where "acc0 = \<lparr>liquid_contact_coord1 = [], liquid_contact_coord2 = [],
     solid_all = replicate (nat nb) (replicate (length (s_solid_atoms S)) (Num 0, Num 0))\<rparr>"
  define fs where "fs = zip [0 ..< length (i # rest)] (i # rest)"
  have zs: "fs = (0, i) # zip [1 ..< Suc (length rest)] rest"
    by (simp add: fs_def upt_conv_Cons del: upt_Suc)
  have mem: "LoadFrame i \<in> set (calls (fst (slab_loop c S fs acc0 u4)))"
    unfolding zs by (rule slab_loop_first_load)
  have "fst (compute_distribution_for_system_with_two_periodic_directions c u topo cutoff pbc s e f)
          = fst (slab_loop c S fs acc0 u4)"
    using prep assms(3,4,5) tr
    by (simp add: compute_distribution_for_system_with_two_periodic_directions_def acc0_def
        fs_def split_def del: upt_Suc split: sum.splits)
  with mem show ?thesis by simp
qed



section \<open>Sample evaluations\<close>

lemma sample_frames_one: "frames_of 3 0 1 1 = Inr [0]"
  by (simp add: frames_of_def py_stride_def py_slice_def py_slice_bound_def upt_conv_Cons)

lemma sample_frames_stride: "frames_of 3 0 3 2 = Inr [0, 2]"
  by (simp add: frames_of_def py_stride_def py_slice_def py_slice_bound_def upt_conv_Cons)

lemma sample_frames_beyond: "frames_of 3 5 7 1 = Inr []"
  by (simp add: frames_of_def py_stride_def py_slice_def py_slice_bound_def)

lemma sample_tube_frames: "frames_of 1 0 1 1 = Inr [0]"
  by (simp add: frames_of_def py_stride_def py_slice_def py_slice_bound_def upt_conv_Cons)

lemma sample_trajectory_length: "length (trajectory sample_universe) = 3"
  by (simp add: sample_universe_def)

lemma sample_tube_trajectory_length: "length (trajectory sample_tube) = 1"
  by (simp add: sample_tube_def)

lemma sample_argsort_single: "sample_argsort [k] = [0]"
  by (simp add: sample_argsort_def)

lemma sample_selections:
  "fst (select_atoms solid_names sample_universe) = [0]"
  "fst (select_atoms [''O'', ''H''] sample_universe) = [1, 2]"
  "fst (select_atoms [''O''] sample_universe) = [1, 2]"
  "fst (select_atoms solid_names sample_tube) = [0]"
  "fst (select_atoms [''O'', ''H''] sample_tube) = [1, 2]"
  "fst (select_atoms solid_names sample_liquid_only) = []"
  by (simp_all add: select_atoms_def sample_universe_def sample_tube_def sample_liquid_only_def
      solid_names_def upt_conv_Cons)

lemma sample_not_pbc: "not_pbc_of [2] = [0, 1]"
  by (simp add: not_pbc_of_def)

lemma sample_mean_single: "exact_mean [Num x] = Num x"
  by (simp add: exact_mean_def exact_sum_def)


lemma sample_tube_prepared:
  "tube_prepare sample_collaborators sample_tube sample_box (3 / 2) (Some 1) (Some 1) [2] =
     (sample_tube\<lparr>calls := [SelectAtoms solid_names, SelectAtoms [''O'', ''H''], CenterOfMass [0]]\<rparr>,
      Inr \<lparr>t_box = sample_box, t_cutoff = 3 / 2, t_pbc_indices = [2], t_not_pbc_indices = [0, 1],
           t_periodic_vector = (0, 0, 1), t_solid_atoms = [0], t_liquid_atoms = [1, 2],
           t_anchor_coordinates = (Num 3, Num 1, Num 4),
           t_indices_atoms_anchor_rotation = [0], t_tube_circumference = Num (2 * pi)\<rparr>)"
  unfolding tube_prepare_if
  apply (simp only: sample_selections sample_not_pbc)
  apply (simp add: sample_tube_def sample_collaborators_def periodic_vector_of_def
      get_atom_ids_on_same_tube_axis_def sample_com_def sample_mean_single
      sample_argsort_single py_slice_bound_def)
  done

lemma sample_wrap_frame:
  "sample_wrap sample_box sample_frame =
     [(Num 1, Num 1, Num 5), (Num 2, Num 3, Num (11 / 2)), (Num 4, Num 4, Num 1)]"
  by (simp add: sample_wrap_def sample_box_def sample_frame_def)

lemma sample_wrap_positions:
  "sample_wrap sample_box (positions sample_universe) = positions sample_universe"
  by (simp add: sample_wrap_def sample_box_def sample_universe_def)

lemma sample_slab_prepare:
  assumes "\<forall>k \<in> set pbc. k < 3"
  shows "slab_prepare sample_collaborators sample_universe sample_box 1 pbc =
     (sample_universe\<lparr>calls := [PackIntoBox, SelectAtoms solid_names, SelectAtoms [''O''],
                                 CenterOfMass [0, 1, 2]]\<rparr>,
      Inr \<lparr>s_box = sample_box, s_cutoff = 1, s_pbc_indices = pbc,
           s_not_pbc_indices = not_pbc_of pbc, s_solid_atoms = [0], s_liquid_atoms = [1, 2],
           s_anchor_coordinates = (Num (7 / 3), Num (5 / 3), Num (23 / 6))\<rparr>)"
proof -
  have neg: "\<not> (\<exists>k \<in> set pbc. 3 \<le> k)" using assms by auto
  have w: "wrap_box sample_collaborators sample_box (positions sample_universe) =
             positions sample_universe"
    by (simp add: sample_collaborators_def sample_wrap_positions)
  show ?thesis
    unfolding slab_prepare_if
    apply (simp only: neg if_False sample_selections w)
    apply (simp add: sample_universe_def sample_collaborators_def all_atoms_def sample_com_def
        exact_mean_def exact_sum_def upt_conv_Cons)
    done
qed

section \<open>C1: what the entry point does with its configuration\<close>

lemma slab_liquid_no_axis:
  "slab_liquid c [] not_pbc cutoff solid_COM liquid_positions = Inl IndexError"
  by (simp add: slab_liquid_def take_rows_def py_index_def Let_def)

lemma slab_liquid_three_axes:
  assumes "length pbc = 3" and "set pbc = {0, 1, 2}"
  shows "slab_liquid c pbc [] cutoff solid_COM liquid_positions = Inr ([], [])"
proof -
  have "pbc ! 0 \<in> set pbc" "pbc ! 1 \<in> set pbc"
    using assms(1) by (simp_all add: nth_mem)
  with assms(2) have "pbc ! 0 < 3" "pbc ! 1 < 3" by auto
  with assms(1) show ?thesis
    by (simp add: slab_liquid_def slab_contact_indices_def
        perpendicular_distance_liquid_to_solid_def np_where_def take_rows_def py_index_def
        np_column_def Let_def)
qed

lemma not_pbc_of_three_axes: "set pbc = {0, 1, 2} \<Longrightarrow> not_pbc_of pbc = []"
  by (simp add: not_pbc_of_def)

lemma slab_frame_first_error:
  assumes "names u \<noteq> []"
      and "s_pbc_indices S = [] \<or>
           length (s_pbc_indices S) = 3 \<and> set (s_pbc_indices S) = {0, 1, 2} \<and>
           s_not_pbc_indices S = []"
  shows "snd (slab_frame c S k i acc u) =
           Inl (if s_solid_atoms S = [] then ValueError
                else if s_pbc_indices S = [] \<or> length (solid_all acc) \<le> k then IndexError
                else ValueError)"
proof -
  have all: "all_atoms (load_frame i u) \<noteq> []"
    using assms(1) by (simp add: all_atoms_def load_frame_def)
  from assms(2) show ?thesis
  proof
    assume "s_pbc_indices S = []"
    with all show ?thesis
      by (simp add: slab_frame_def split_def slab_normalize_simps center_of_mass_simps
          slab_liquid_no_axis split: option.splits)
  next
    assume three: "length (s_pbc_indices S) = 3 \<and> set (s_pbc_indices S) = {0, 1, 2} \<and>
           s_not_pbc_indices S = []"
    then have ne: "s_pbc_indices S \<noteq> []" by auto
    from three have liq: "slab_liquid c (s_pbc_indices S) [] cutoff com liq = Inr ([], [])"
      for cutoff com liq
      using slab_liquid_three_axes[of "s_pbc_indices S"] by simp
    from three all ne show ?thesis
      by (simp add: slab_frame_def split_def slab_normalize_simps center_of_mass_simps liq
          slab_store_solid_def broadcast_rows2_def split: option.splits)
  qed
qed

lemma concat_replicate_replicate:
  "concat (replicate n (replicate m x)) = replicate (n * m) x"
  by (induction n) (simp_all add: replicate_add)

lemma slab_run_unfold:
  assumes "\<forall>k \<in> set pbc. k < 3" and "names u \<noteq> []"
      and "py_int_truediv (e - s) f = Inr nb" and "0 \<le> nb"
      and "frames_of (length (trajectory u)) s e f = Inr frames"
  shows "compute_distribution_for_system_with_two_periodic_directions c u topo cutoff pbc s e f =
     (case slab_loop c (projr (snd (slab_prepare c u topo cutoff pbc)))
             (zip [0 ..< length frames] frames)
             \<lparr>liquid_contact_coord1 = [], liquid_contact_coord2 = [],
              solid_all = replicate (nat nb)
                (replicate (length (fst (select_atoms solid_names u))) (Num 0, Num 0))\<rparr>
             (fst (slab_prepare c u topo cutoff pbc)) of
        (u5, Inl err) \<Rightarrow> (u5, Inl err)
      | (u5, Inr acc) \<Rightarrow> (u5, slab_finish acc))"
proof -
  from assms(1) have neg: "\<not> (\<exists>k \<in> set pbc. 3 \<le> k)" by auto
  define u4 where "u4 = fst (slab_prepare c u topo cutoff pbc)"
  define S where "S = projr (snd (slab_prepare c u topo cutoff pbc))"
  have prep: "slab_prepare c u topo cutoff pbc = (u4, Inr S)"
    using neg assms(2) by (simp add: u4_def S_def slab_prepare_if)
  have tr: "trajectory u4 = trajectory u"
    by (simp add: u4_def slab_prepare_trajectory)
  have solid: "s_solid_atoms S = fst (select_atoms solid_names u)"
    by (rule slab_prepare_setup(3)[OF prep])
  show ?thesis
    unfolding u4_def[symmetric] S_def[symmetric]
    using prep assms(3,4,5) tr solid
    by (simp add: compute_distribution_for_system_with_two_periodic_directions_def)
qed

lemma slab_run_first_frame_raises:
  assumes "names u \<noteq> []"
      and "pbc = [] \<or> length pbc = 3 \<and> set pbc = {0, 1, 2}"
      and "py_int_truediv (e - s) f = Inr nb" and "0 \<le> nb"
      and "frames_of (length (trajectory u)) s e f = Inr (i # rest)"
  shows "snd (compute_distribution_for_system_with_two_periodic_directions c u topo cutoff pbc
                s e f) =
           Inl (if fst (select_atoms solid_names u) = [] then ValueError
                else if pbc = [] \<or> nb = 0 then IndexError else ValueError)"
    and "calls (fst (compute_distribution_for_system_with_two_periodic_directions c u topo cutoff
                pbc s e f)) =
           calls u @ [PackIntoBox, SelectAtoms solid_names, SelectAtoms [''O''],
                      CenterOfMass (all_atoms u), LoadFrame i, PackIntoBox,
                      CenterOfMass (all_atoms u), PackIntoBox,
                      CenterOfMass (fst (select_atoms solid_names u))]"
proof -
  from assms(2) have lt: "\<forall>k \<in> set pbc. k < 3" by auto
  then have neg: "\<not> (\<exists>k \<in> set pbc. 3 \<le> k)" by auto
  define u4 where "u4 = fst (slab_prepare c u topo cutoff pbc)"
  define S where "S = projr (snd (slab_prepare c u topo cutoff pbc))"
  define acc0 where "acc0 = \<lparr>liquid_contact_coord1 = [], liquid_contact_coord2 = [],
              solid_all = replicate (nat nb)
                (replicate (length (fst (select_atoms solid_names u))) (Num 0, Num 0))\<rparr>"
  have prep: "slab_prepare c u topo cutoff pbc = (u4, Inr S)"
    using neg assms(1) by (simp add: u4_def S_def slab_prepare_if)
  note fields = slab_prepare_setup[OF prep]
  have u4: "names u4 \<noteq> []" "all_atoms u4 = all_atoms u"
    "calls u4 = calls u @ [PackIntoBox, SelectAtoms solid_names, SelectAtoms [''O''],
                           CenterOfMass (all_atoms u)]"
    using neg assms(1) by (simp_all add: u4_def slab_prepare_if all_atoms_def)
  have axes: "s_pbc_indices S = [] \<or>
           length (s_pbc_indices S) = 3 \<and> set (s_pbc_indices S) = {0, 1, 2} \<and>
           s_not_pbc_indices S = []"
    using assms(2) fields(1,2) not_pbc_of_three_axes[of pbc] by auto
  have blocks: "(length (solid_all acc0) \<le> 0) = (nb = 0)"
    using assms(4) by (simp add: acc0_def)
  have err: "snd (slab_frame c S 0 i acc0 u4) =
           Inl (if fst (select_atoms solid_names u) = [] then ValueError
                else if pbc = [] \<or> nb = 0 then IndexError else ValueError)"
    using slab_frame_first_error[OF u4(1) axes, of c 0 i acc0] fields(1,3) blocks by simp
  have zs: "zip [0 ..< length (i # rest)] (i # rest) = (0, i) # zip [1 ..< Suc (length rest)] rest"
    by (simp add: upt_conv_Cons del: upt_Suc)
  have run: "compute_distribution_for_system_with_two_periodic_directions c u topo cutoff pbc s e f
        = (fst (slab_frame c S 0 i acc0 u4),
           Inl (if fst (select_atoms solid_names u) = [] then ValueError
                else if pbc = [] \<or> nb = 0 then IndexError else ValueError))"
    unfolding slab_run_unfold[OF lt assms(1,3,4,5)] u4_def[symmetric] S_def[symmetric]
      acc0_def[symmetric] zs
    using err by (simp add: split_def)
  show "snd (compute_distribution_for_system_with_two_periodic_directions c u topo cutoff pbc
                s e f) =
           Inl (if fst (select_atoms solid_names u) = [] then ValueError
                else if pbc = [] \<or> nb = 0 then IndexError else ValueError)"
    by (simp only: run snd_conv)
  show "calls (fst (compute_distribution_for_system_with_two_periodic_directions c u topo cutoff
                pbc s e f)) =
           calls u @ [PackIntoBox, SelectAtoms solid_names, SelectAtoms [''O''],
                      CenterOfMass (all_atoms u), LoadFrame i, PackIntoBox,
                      CenterOfMass (all_atoms u), PackIntoBox,
                      CenterOfMass (fst (select_atoms solid_names u))]"
    using u4 assms(1) fields(3)
    by (simp add: run slab_frame_calls all_atoms_empty)
qed

lemma slab_run_no_frame:
  assumes "\<forall>k \<in> set pbc. k < 3" and "names u \<noteq> []"
      and "py_int_truediv (e - s) f = Inr nb" and "0 \<le> nb"
      and "frames_of (length (trajectory u)) s e f = Inr []"
  shows "snd (compute_distribution_for_system_with_two_periodic_directions c u topo cutoff pbc
                s e f) =
           (if nb = 0 then Inl ValueError
            else Inr ([], replicate (nat nb * length (fst (select_atoms solid_names u)))
                            (Num 0, Num 0)))"
    and "calls (fst (compute_distribution_for_system_with_two_periodic_directions c u topo cutoff
                pbc s e f)) =
           calls u @ [PackIntoBox, SelectAtoms solid_names, SelectAtoms [''O''],
                      CenterOfMass (all_atoms u)]"
proof -
  from assms(1) have neg: "\<not> (\<exists>k \<in> set pbc. 3 \<le> k)" by auto
  have nb: "(nat nb = 0) = (nb = 0)" using assms(4) by auto
  show "snd (compute_distribution_for_system_with_two_periodic_directions c u topo cutoff pbc
                s e f) =
           (if nb = 0 then Inl ValueError
            else Inr ([], replicate (nat nb * length (fst (select_atoms solid_names u)))
                            (Num 0, Num 0)))"
    unfolding slab_run_unfold[OF assms]
    using assms(4)
    by (simp add: slab_finish_def np_column_stack_def concat_replicate_replicate nb)
  show "calls (fst (compute_distribution_for_system_with_two_periodic_directions c u topo cutoff
                pbc s e f)) =
           calls u @ [PackIntoBox, SelectAtoms solid_names, SelectAtoms [''O''],
                      CenterOfMass (all_atoms u)]"
    unfolding slab_run_unfold[OF assms]
    using neg by (simp add: slab_prepare_if)
qed

text \<open>
  Counterexample to claim C1. Called with three periodic axes, or with none, on the
  sample system, the entry point does not fail before any frame: it runs the slab
  pipeline, which loads frame 0.
\<close>

theorem no_configuration_error_for_three_axes:
  "\<not> fails_before_any_frame sample_universe
       (compute_spatial_distribution_of_atoms_on_interface sample_collaborators sample_universe
          sample_box 1 [0, 1, 2] 0 1 1 None None) \<and>
   \<not> fails_before_any_frame sample_universe
       (compute_spatial_distribution_of_atoms_on_interface sample_collaborators sample_universe
          sample_box 1 [] 0 1 1 None None)"
proof -
  have nm: "names sample_universe \<noteq> []" by (simp add: sample_universe_def)
  have run: "filter is_load (calls (fst
           (compute_distribution_for_system_with_two_periodic_directions sample_collaborators
              sample_universe sample_box 1 pbc 0 1 1))) \<noteq> []"
    if s: "\<forall>k \<in> set pbc. k < 3" for pbc
  proof -
    have "LoadFrame 0 \<in> set (calls (fst
           (compute_distribution_for_system_with_two_periodic_directions sample_collaborators
              sample_universe sample_box 1 pbc 0 1 1)))"
      by (rule slab_run_loads_first_frame[OF s nm, where nb = 1 and rest = "[]"])
         (simp_all add: py_int_truediv_def sample_trajectory_length sample_frames_one)
    then have "\<exists>x \<in> set (calls (fst
           (compute_distribution_for_system_with_two_periodic_directions sample_collaborators
              sample_universe sample_box 1 pbc 0 1 1))). is_load x"
      by (rule rev_bexI) simp
    then show ?thesis by (simp add: filter_empty_conv)
  qed
  have three: "\<forall>k \<in> set [0, 1, 2 :: nat]. k < 3" and none: "\<forall>k \<in> set ([] :: nat list). k < 3"
    by simp_all
  show ?thesis
    using run[OF three] run[OF none]
    by (simp add: fails_before_any_frame_def compute_spatial_distribution_of_atoms_on_interface_def
        sample_universe_def)
qed

text \<open>
  Claim C1, amended. The entry point checks nothing and raises no configuration error
  of its own.

  With one periodic axis and a missing tube radius or tube length the call raises
  before any frame is loaded and returns nothing: IndexError for an axis index above 2,
  otherwise ValueError when no solid atom is selected (the centre of mass of an empty
  group), otherwise TypeError. By then it has selected the two atom groups and taken
  the centre of mass of the solid, unless the axis index was refused first.

  Any other number of periodic axes, 0 and 3 included, is the slab pipeline's call.
  With no axis, or with the three axes 0, 1, 2 in any order, on a universe that has
  atoms and with a count of blocks that is not negative, that call wraps, selects and
  takes the anchor, and then: if the frame range has a first frame, it loads and
  normalizes that frame and raises inside it (ValueError when no solid atom is
  selected; otherwise IndexError with no axis or with no block allocated, and
  ValueError with three axes); if the frame range is empty, it loads nothing and
  returns an empty liquid array with the zero rows of the allocation (ValueError when
  no block was allocated).
\<close>

theorem entry_point_dispatch:
  "(length pbc = 1 \<and> (tube_radius = None \<or> tube_length_in_unit_cells = None) \<longrightarrow>
      fails_before_any_frame u
        (compute_spatial_distribution_of_atoms_on_interface c u topo cutoff pbc s e f
           tube_radius tube_length_in_unit_cells) \<and>
      snd (compute_spatial_distribution_of_atoms_on_interface c u topo cutoff pbc s e f
           tube_radius tube_length_in_unit_cells) =
        Inl (if \<exists>k \<in> set pbc. 3 \<le> k then IndexError
             else if fst (select_atoms solid_names u) = [] then ValueError
             else TypeError) \<and>
      calls (fst (compute_spatial_distribution_of_atoms_on_interface c u topo cutoff pbc s e f
           tube_radius tube_length_in_unit_cells)) =
        (if \<exists>k \<in> set pbc. 3 \<le> k then calls u
         else calls u @ [SelectAtoms solid_names, SelectAtoms [''O'', ''H''],
                         CenterOfMass (fst (select_atoms solid_names u))])) \<and>
   (length pbc \<noteq> 1 \<longrightarrow>
      compute_spatial_distribution_of_atoms_on_interface c u topo cutoff pbc s e f
        tube_radius tube_length_in_unit_cells =
      compute_distribution_for_system_with_two_periodic_directions c u topo cutoff pbc s e f) \<and>
   (names u \<noteq> [] \<and> (pbc = [] \<or> length pbc = 3 \<and> set pbc = {0, 1, 2}) \<and>
    py_int_truediv (e - s) f = Inr nb \<and> 0 \<le> nb \<and>
    frames_of (length (trajectory u)) s e f = Inr (i # rest) \<longrightarrow>
      snd (compute_spatial_distribution_of_atoms_on_interface c u topo cutoff pbc s e f
           tube_radius tube_length_in_unit_cells) =
        Inl (if fst (select_atoms solid_names u) = [] then ValueError
             else if pbc = [] \<or> nb = 0 then IndexError else ValueError) \<and>
      calls (fst (compute_spatial_distribution_of_atoms_on_interface c u topo cutoff pbc s e f
           tube_radius tube_length_in_unit_cells)) =
        calls u @ [PackIntoBox, SelectAtoms solid_names, SelectAtoms [''O''],
                   CenterOfMass (all_atoms u), LoadFrame i, PackIntoBox,
                   CenterOfMass (all_atoms u), PackIntoBox,
                   CenterOfMass (fst (select_atoms solid_names u))]) \<and>
   (names u \<noteq> [] \<and> (pbc = [] \<or> length pbc = 3 \<and> set pbc = {0, 1, 2}) \<and>
    py_int_truediv (e - s) f = Inr nb \<and> 0 \<le> nb \<and>
    frames_of (length (trajectory u)) s e f = Inr [] \<longrightarrow>
      snd (compute_spatial_distribution_of_atoms_on_interface c u topo cutoff pbc s e f
           tube_radius tube_length_in_unit_cells) =
        (if nb = 0 then Inl ValueError
         else Inr ([], replicate (nat nb * length (fst (select_atoms solid_names u)))
                         (Num 0, Num 0))) \<and>
      calls (fst (compute_spatial_distribution_of_atoms_on_interface c u topo cutoff pbc s e f
           tube_radius tube_length_in_unit_cells)) =
        calls u @ [PackIntoBox, SelectAtoms solid_names, SelectAtoms [''O''],
                   CenterOfMass (all_atoms u)])"
proof (intro conjI impI)
  assume h: "length pbc = 1 \<and> (tube_radius = None \<or> tube_length_in_unit_cells = None)"
  let ?p = "tube_prepare c u topo cutoff tube_radius tube_length_in_unit_cells pbc"
  let ?r = "compute_spatial_distribution_of_atoms_on_interface c u topo cutoff pbc s e f
           tube_radius tube_length_in_unit_cells"
  let ?err = "if \<exists>k \<in> set pbc. 3 \<le> k then IndexError
             else if fst (select_atoms solid_names u) = [] then ValueError
             else TypeError"
  from h have miss: "snd ?p = Inl ?err"
    by (intro tube_prepare_missing) simp
  then have p: "?p = (fst ?p, Inl ?err)" by (simp only: prod_eq_iff fst_conv snd_conv simp_thms)
  from h have len: "length pbc = 1" by simp
  have r: "?r = (fst ?p, Inl ?err)"
    unfolding compute_spatial_distribution_of_atoms_on_interface_def
      compute_distribution_for_system_with_one_periodic_direction_def
    by (subst p) (simp only: len simp_thms if_True prod.case sum.case)
  show "fails_before_any_frame u ?r"
    by (simp add: r fails_before_any_frame_def tube_prepare_calls)
  show "snd ?r = Inl ?err"
    by (simp add: r)
  show "calls (fst ?r) =
        (if \<exists>k \<in> set pbc. 3 \<le> k then calls u
         else calls u @ [SelectAtoms solid_names, SelectAtoms [''O'', ''H''],
                         CenterOfMass (fst (select_atoms solid_names u))])"
    by (simp only: r fst_conv tube_prepare_calls_exact)
next
  assume "length pbc \<noteq> 1"
  then show "compute_spatial_distribution_of_atoms_on_interface c u topo cutoff pbc s e f
        tube_radius tube_length_in_unit_cells =
      compute_distribution_for_system_with_two_periodic_directions c u topo cutoff pbc s e f"
    by (simp add: compute_spatial_distribution_of_atoms_on_interface_def)
next
  assume h: "names u \<noteq> [] \<and> (pbc = [] \<or> length pbc = 3 \<and> set pbc = {0, 1, 2}) \<and>
    py_int_truediv (e - s) f = Inr nb \<and> 0 \<le> nb \<and>
    frames_of (length (trajectory u)) s e f = Inr (i # rest)"
  then have slab: "compute_spatial_distribution_of_atoms_on_interface c u topo cutoff pbc s e f
        tube_radius tube_length_in_unit_cells =
      compute_distribution_for_system_with_two_periodic_directions c u topo cutoff pbc s e f"
    by (auto simp: compute_spatial_distribution_of_atoms_on_interface_def)
  from h have h1: "names u \<noteq> []" and h2: "pbc = [] \<or> length pbc = 3 \<and> set pbc = {0, 1, 2}"
    and h3: "py_int_truediv (e - s) f = Inr nb" and h4: "0 \<le> nb"
    and h5: "frames_of (length (trajectory u)) s e f = Inr (i # rest)"
    by simp_all
  show "snd (compute_spatial_distribution_of_atoms_on_interface c u topo cutoff pbc s e f
           tube_radius tube_length_in_unit_cells) =
        Inl (if fst (select_atoms solid_names u) = [] then ValueError
             else if pbc = [] \<or> nb = 0 then IndexError else ValueError)"
    unfolding slab by (rule slab_run_first_frame_raises(1)[OF h1 h2 h3 h4 h5])
  show "calls (fst (compute_spatial_distribution_of_atoms_on_interface c u topo cutoff pbc s e f
           tube_radius tube_length_in_unit_cells)) =
        calls u @ [PackIntoBox, SelectAtoms solid_names, SelectAtoms [''O''],
                   CenterOfMass (all_atoms u), LoadFrame i, PackIntoBox,
                   CenterOfMass (all_atoms u), PackIntoBox,
                   CenterOfMass (fst (select_atoms solid_names u))]"
    unfolding slab by (rule slab_run_first_frame_raises(2)[OF h1 h2 h3 h4 h5])
next
  assume h: "names u \<noteq> [] \<and> (pbc = [] \<or> length pbc = 3 \<and> set pbc = {0, 1, 2}) \<and>
    py_int_truediv (e - s) f = Inr nb \<and> 0 \<le> nb \<and>
    frames_of (length (trajectory u)) s e f = Inr []"
  then have slab: "compute_spatial_distribution_of_atoms_on_interface c u topo cutoff pbc s e f
        tube_radius tube_length_in_unit_cells =
      compute_distribution_for_system_with_two_periodic_directions c u topo cutoff pbc s e f"
    by (auto simp: compute_spatial_distribution_of_atoms_on_interface_def)
  from h have h1: "names u \<noteq> []" and h2: "\<forall>k \<in> set pbc. k < 3"
    and h3: "py_int_truediv (e - s) f = Inr nb" and h4: "0 \<le> nb"
    and h5: "frames_of (length (trajectory u)) s e f = Inr []"
    by auto
  show "snd (compute_spatial_distribution_of_atoms_on_interface c u topo cutoff pbc s e f
           tube_radius tube_length_in_unit_cells) =
        (if nb = 0 then Inl ValueError
         else Inr ([], replicate (nat nb * length (fst (select_atoms solid_names u)))
                         (Num 0, Num 0)))"
    unfolding slab by (rule slab_run_no_frame(1)[OF h2 h1 h3 h4 h5])
  show "calls (fst (compute_spatial_distribution_of_atoms_on_interface c u topo cutoff pbc s e f
           tube_radius tube_length_in_unit_cells)) =
        calls u @ [PackIntoBox, SelectAtoms solid_names, SelectAtoms [''O''],
                   CenterOfMass (all_atoms u)]"
    unfolding slab by (rule slab_run_no_frame(2)[OF h2 h1 h3 h4 h5])
qed

text \<open>
  The cases of the amended claim C1 on the sample systems: one axis and no tube
  parameter, with and without a solid atom; three axes and no axis over frame 0; three
  axes over the frames from 5 to 7, which the trajectory of three frames does not have.
\<close>

theorem entry_point_dispatch_witness:
  "fails_before_any_frame sample_universe
     (compute_spatial_distribution_of_atoms_on_interface sample_collaborators sample_universe
        sample_box 1 [2] 0 1 1 None None) \<and>
   snd (compute_spatial_distribution_of_atoms_on_interface sample_collaborators sample_universe
        sample_box 1 [2] 0 1 1 None None) = Inl TypeError \<and>
   snd (compute_spatial_distribution_of_atoms_on_interface sample_collaborators
        sample_liquid_only sample_box 1 [2] 0 1 1 None None) = Inl ValueError \<and>
   compute_spatial_distribution_of_atoms_on_interface sample_collaborators sample_universe
     sample_box 1 [0, 1, 2] 0 1 1 None None =
   compute_distribution_for_system_with_two_periodic_directions sample_collaborators
     sample_universe sample_box 1 [0, 1, 2] 0 1 1 \<and>
   snd (compute_spatial_distribution_of_atoms_on_interface sample_collaborators sample_universe
        sample_box 1 [0, 1, 2] 0 1 1 None None) = Inl ValueError \<and>
   snd (compute_spatial_distribution_of_atoms_on_interface sample_collaborators sample_universe
        sample_box 1 [] 0 1 1 None None) = Inl IndexError \<and>
   calls (fst (compute_spatial_distribution_of_atoms_on_interface sample_collaborators
        sample_universe sample_box 1 [] 0 1 1 None None)) =
     [PackIntoBox, SelectAtoms solid_names, SelectAtoms [''O''], CenterOfMass [0, 1, 2],
      LoadFrame 0, PackIntoBox, CenterOfMass [0, 1, 2], PackIntoBox, CenterOfMass [0]] \<and>
   snd (compute_spatial_distribution_of_atoms_on_interface sample_collaborators sample_universe
        sample_box 1 [0, 1, 2] 5 7 1 None None) = Inr ([], [(Num 0, Num 0), (Num 0, Num 0)])"
proof -
  have one: "length [2 :: nat] = 1 \<and> ((None :: real option) = None \<or> (None :: int option) = None)"
    by simp
  have three: "length [0, 1, 2 :: nat] \<noteq> 1" by simp
  have nm: "names sample_universe \<noteq> []" by (simp add: sample_universe_def)
  have all: "all_atoms sample_universe = [0, 1, 2]"
    by (simp add: all_atoms_def sample_universe_def upt_conv_Cons)
  have div1: "py_int_truediv (1 - 0) 1 = Inr 1" and div2: "py_int_truediv (7 - 5) 1 = Inr 2"
    by (simp_all add: py_int_truediv_def)
  have f1: "frames_of (length (trajectory sample_universe)) 0 1 1 = Inr [0]"
    by (simp only: sample_trajectory_length sample_frames_one)
  have f2: "frames_of (length (trajectory sample_universe)) 5 7 1 = Inr []"
    by (simp only: sample_trajectory_length sample_frames_beyond)
  have h3: "names sample_universe \<noteq> [] \<and>
      ([0, 1, 2 :: nat] = [] \<or> length [0, 1, 2 :: nat] = 3 \<and> set [0, 1, 2 :: nat] = {0, 1, 2}) \<and>
      py_int_truediv (1 - 0) 1 = Inr 1 \<and> (0 :: int) \<le> 1 \<and>
      frames_of (length (trajectory sample_universe)) 0 1 1 = Inr [0]"
    using nm div1 f1 by simp
  have h0: "names sample_universe \<noteq> [] \<and>
      (([] :: nat list) = [] \<or> length ([] :: nat list) = 3 \<and> set ([] :: nat list) = {0, 1, 2}) \<and>
      py_int_truediv (1 - 0) 1 = Inr 1 \<and> (0 :: int) \<le> 1 \<and>
      frames_of (length (trajectory sample_universe)) 0 1 1 = Inr [0]"
    using nm div1 f1 by simp
  have he: "names sample_universe \<noteq> [] \<and>
      ([0, 1, 2 :: nat] = [] \<or> length [0, 1, 2 :: nat] = 3 \<and> set [0, 1, 2 :: nat] = {0, 1, 2}) \<and>
      py_int_truediv (7 - 5) 1 = Inr 2 \<and> (0 :: int) \<le> 2 \<and>
      frames_of (length (trajectory sample_universe)) 5 7 1 = Inr []"
    using nm div2 f2 by simp
  note a = entry_point_dispatch[THEN conjunct1, rule_format, OF one,
      of sample_universe sample_collaborators sample_box 1 0 1 1]
  note b = entry_point_dispatch[THEN conjunct1, rule_format, OF one,
      of sample_liquid_only sample_collaborators sample_box 1 0 1 1]
  note d = entry_point_dispatch[THEN conjunct2, THEN conjunct1, rule_format, OF three,
      of sample_collaborators sample_universe sample_box 1 0 1 1 None None]
  note g = entry_point_dispatch[THEN conjunct2, THEN conjunct2, THEN conjunct1, rule_format,
      OF h3, of sample_collaborators sample_box 1 None None]
  note h = entry_point_dispatch[THEN conjunct2, THEN conjunct2, THEN conjunct1, rule_format,
      OF h0, of sample_collaborators sample_box 1 None None]
  note k = entry_point_dispatch[THEN conjunct2, THEN conjunct2, THEN conjunct2, rule_format,
      OF he, of sample_collaborators sample_box 1 None None]
  have e0: "calls sample_universe = []" by (simp add: sample_universe_def)
  have rows: "replicate (nat 2 * length [0 :: nat]) (Num 0, Num 0) = [(Num 0, Num 0), (Num 0, Num 0)]"
    by (simp add: eval_nat_numeral)
  from a have a': "fails_before_any_frame sample_universe
     (compute_spatial_distribution_of_atoms_on_interface sample_collaborators sample_universe
        sample_box 1 [2] 0 1 1 None None) \<and>
   snd (compute_spatial_distribution_of_atoms_on_interface sample_collaborators sample_universe
        sample_box 1 [2] 0 1 1 None None) = Inl TypeError"
    by (simp add: sample_selections)
  from b have b': "snd (compute_spatial_distribution_of_atoms_on_interface sample_collaborators
        sample_liquid_only sample_box 1 [2] 0 1 1 None None) = Inl ValueError"
    by (simp add: sample_selections)
  from g have g': "snd (compute_spatial_distribution_of_atoms_on_interface sample_collaborators
        sample_universe sample_box 1 [0, 1, 2] 0 1 1 None None) = Inl ValueError"
    by (simp add: sample_selections)
  from h have h': "snd (compute_spatial_distribution_of_atoms_on_interface sample_collaborators
        sample_universe sample_box 1 [] 0 1 1 None None) = Inl IndexError \<and>
   calls (fst (compute_spatial_distribution_of_atoms_on_interface sample_collaborators
        sample_universe sample_box 1 [] 0 1 1 None None)) =
     [PackIntoBox, SelectAtoms solid_names, SelectAtoms [''O''], CenterOfMass [0, 1, 2],
      LoadFrame 0, PackIntoBox, CenterOfMass [0, 1, 2], PackIntoBox, CenterOfMass [0]]"
    by (simp add: sample_selections all e0)
  from k have k': "snd (compute_spatial_distribution_of_atoms_on_interface sample_collaborators
        sample_universe sample_box 1 [0, 1, 2] 5 7 1 None None) =
        Inr ([], [(Num 0, Num 0), (Num 0, Num 0)])"
    by (simp only: sample_selections rows) simp
  from a' b' d g' h' k' show ?thesis
    by (simp only: simp_thms)
qed

section \<open>C2: where the frames are wrapped\<close>





section \<open>A sample run of the tube pipeline\<close>

lemmas sample_arith = sample_collaborators_def sample_com_def exact_mean_def exact_sum_def
  exact_sub_def exact_dot_def exact_norm_def sample_wrap_def sample_box_def

lemma sample_tube_normalize:
  "tube_normalize sample_collaborators
     \<lparr>t_box = sample_box, t_cutoff = 3 / 2, t_pbc_indices = [2], t_not_pbc_indices = [0, 1],
      t_periodic_vector = (0, 0, 1), t_solid_atoms = [0], t_liquid_atoms = [1, 2],
      t_anchor_coordinates = (Num 3, Num 1, Num 4),
      t_indices_atoms_anchor_rotation = [0], t_tube_circumference = Num (2 * pi)\<rparr>
     (load_frame 0 (sample_tube\<lparr>calls := [SelectAtoms solid_names, SelectAtoms [''O'', ''H''],
                                           CenterOfMass [0]]\<rparr>)) =
   (sample_tube\<lparr>positions := [(Num 3, Num 1, Num 4), (Num 1, Num 1, Num (9 / 2)),
                               (Num 2, Num 1, Num 0)],
                 calls := [SelectAtoms solid_names, SelectAtoms [''O'', ''H''], CenterOfMass [0],
                           LoadFrame 0, CenterOfMass [0], CenterOfMass [0, 1, 2],
                           RotationMatrix, PackIntoBox]\<rparr>, None)"
  apply (simp add: tube_normalize_def tube_translate_def tube_rotate_def center_of_mass_def
      translate_all_def set_positions_def load_frame_def all_atoms_def sample_tube_def
      sample_tube_frame_def take_rows_def group_positions_def np_mean_axis0_def take_cols_def
      angle_anchor_first_axis_of_def normed_dot_product_of_def spec_rotation_matrix_def
      pack_into_box_def sample_arith upt_conv_Cons Let_def)
  done

lemma sample_arctan2: "arctan2 0 (- 2) = pi" "arctan2 0 0 = 0"
  by (simp_all add: arctan2_def)

lemma sample_tube_frame_run:
  "tube_frame sample_collaborators
     \<lparr>t_box = sample_box, t_cutoff = 3 / 2, t_pbc_indices = [2], t_not_pbc_indices = [0, 1],
      t_periodic_vector = (0, 0, 1), t_solid_atoms = [0], t_liquid_atoms = [1, 2],
      t_anchor_coordinates = (Num 3, Num 1, Num 4),
      t_indices_atoms_anchor_rotation = [0], t_tube_circumference = Num (2 * pi)\<rparr>
     0
     \<lparr>tube_liquid_contact_coord1 = [], tube_liquid_contact_coord2 = [],
      solid_coord1 = [], solid_coord2 = []\<rparr>
     (sample_tube\<lparr>calls := [SelectAtoms solid_names, SelectAtoms [''O'', ''H''],
                             CenterOfMass [0]]\<rparr>) =
   (sample_tube\<lparr>positions := [(Num 3, Num 1, Num 4), (Num 1, Num 1, Num (9 / 2)),
                               (Num 2, Num 1, Num 0)],
                 calls := [SelectAtoms solid_names, SelectAtoms [''O'', ''H''], CenterOfMass [0],
                           LoadFrame 0, CenterOfMass [0], CenterOfMass [0, 1, 2],
                           RotationMatrix, PackIntoBox, CenterOfMass [0]]\<rparr>,
    Inr \<lparr>tube_liquid_contact_coord1 = [Num (9 / 2)], tube_liquid_contact_coord2 = [Num (2 * pi)],
         solid_coord1 = [Num 4], solid_coord2 = [Num pi]\<rparr>)"
  unfolding tube_frame_def
  apply (simp only: sample_tube_normalize prod.case option.case)
  apply (simp add: center_of_mass_def group_positions_def sample_tube_def tube_project_def
      liquid_atoms_in_contact_positions_of_def tube_contact_indices_def np_where_def
      take_cols_def fl_ge_def angular_components_def angular_component_def py_index_def
      sample_arith sample_arctan2 upt_conv_Cons Let_def)
  done

lemma sample_tube_run:
  "compute_spatial_distribution_of_atoms_on_interface sample_collaborators sample_tube
     sample_box (3 / 2) [2] 0 1 1 (Some 1) (Some 1) =
   (sample_tube\<lparr>positions := [(Num 3, Num 1, Num 4), (Num 1, Num 1, Num (9 / 2)),
                               (Num 2, Num 1, Num 0)],
                 calls := [SelectAtoms solid_names, SelectAtoms [''O'', ''H''], CenterOfMass [0],
                           LoadFrame 0, CenterOfMass [0], CenterOfMass [0, 1, 2],
                           RotationMatrix, PackIntoBox, CenterOfMass [0]]\<rparr>,
    Inr ([(Num (9 / 2), Num (2 * pi))], [(Num 4, Num pi)]))"
proof -
  have one: "length [2 :: nat] = 1" by simp
  have tr: "length (trajectory (sample_tube\<lparr>calls := [SelectAtoms solid_names,
      SelectAtoms [''O'', ''H''], CenterOfMass [0]]\<rparr>)) = 1"
    by (simp add: sample_tube_def)
  show ?thesis
    unfolding compute_spatial_distribution_of_atoms_on_interface_def
      compute_distribution_for_system_with_one_periodic_direction_def
    apply (simp only: one if_True sample_tube_prepared prod.case sum.case tr sample_tube_frames
        tube_loop.simps sample_tube_frame_run)
    apply (simp add: tube_finish_def np_column_stack_def)
    done
qed

section \<open>C3: the translation of each frame\<close>

lemma tube_frame_after_translation:
  assumes "tube_frame c T i acc u = (u', Inr acc')"
  shows "t_solid_atoms T \<noteq> []"
    and "snd (tube_normalize c T (load_frame i u)) = None"
    and "positions u' = positions (fst (tube_rotate c T
           (fst (tube_translate c (t_solid_atoms T) (t_anchor_coordinates T) (load_frame i u)))))"
    and "u' = fst (center_of_mass c (t_solid_atoms T) (fst (tube_normalize c T (load_frame i u))))"
    and "tube_project c T (com_of c (t_solid_atoms T) (positions u'))
           (group_positions (t_liquid_atoms T) u') (group_positions (t_solid_atoms T) u') acc
         = Inr acc'"
proof -
  show none: "snd (tube_normalize c T (load_frame i u)) = None"
    using assms by (cases "snd (tube_normalize c T (load_frame i u))") (auto simp: tube_frame_if)
  show solid: "t_solid_atoms T \<noteq> []"
    by (rule tube_normalize_solid[OF none])
  show u': "u' = fst (center_of_mass c (t_solid_atoms T) (fst (tube_normalize c T (load_frame i u))))"
    using assms none by (simp add: tube_frame_if)
  show "positions u' = positions (fst (tube_rotate c T
           (fst (tube_translate c (t_solid_atoms T) (t_anchor_coordinates T) (load_frame i u)))))"
    using solid by (simp add: u' center_of_mass_simps tube_normalize_if)
  show "tube_project c T (com_of c (t_solid_atoms T) (positions u'))
           (group_positions (t_liquid_atoms T) u') (group_positions (t_solid_atoms T) u') acc
         = Inr acc'"
    using assms none
    by (simp add: tube_frame_if u' center_of_mass_simps group_positions_def)
qed

lemma tube_translate_loaded:
  assumes "solid \<noteq> []"
  shows "fst (tube_translate c solid a (load_frame i u)) =
     (load_frame i u)\<lparr>positions :=
         map (\<lambda>p. vcast c (vsub c p (vsub c (com_of c solid (trajectory u ! i)) a)))
           (trajectory u ! i),
       calls := calls u @ [LoadFrame i, CenterOfMass solid]\<rparr>"
  using assms
  by (simp add: tube_translate_def center_of_mass_def translate_all_def set_positions_def
      load_frame_def comp_def)

lemma translation_components:
  "(\<lambda>p. vcast c (vsub c p (vsub c (fx, fy, fz) (ax, ay, az)))) =
   (\<lambda>(x, y, z). (to_float32 c (f_sub c x (f_sub c fx ax)),
                to_float32 c (f_sub c y (f_sub c fy ay)),
                to_float32 c (f_sub c z (f_sub c fz az))))"
  by (auto simp: fun_eq_iff)

lemma slab_frame_positions:
  assumes "slab_frame c S k i acc u = (u', Inr acc')"
  shows "all_atoms u \<noteq> []"
    and "positions u' =
       wrap_box c (s_box S)
        (map (\<lambda>p. vcast c (vsub c p
                (vsub c (com_of c (all_atoms u) (wrap_box c (s_box S) (trajectory u ! i)))
                   (s_anchor_coordinates S))))
           (wrap_box c (s_box S) (trajectory u ! i)))"
proof -
  show ne: "all_atoms u \<noteq> []"
    using assms
    by (auto simp: slab_frame_def split_def slab_normalize_simps all_atoms_simps
        split: option.splits)
  have "u' = fst (center_of_mass c (s_solid_atoms S)
          (fst (slab_normalize c (s_box S) (s_anchor_coordinates S) (load_frame i u))))"
    using assms
    by (auto simp: slab_frame_def split_def split: option.splits sum.splits)
  with ne show "positions u' =
       wrap_box c (s_box S)
        (map (\<lambda>p. vcast c (vsub c p
                (vsub c (com_of c (all_atoms u) (wrap_box c (s_box S) (trajectory u ! i)))
                   (s_anchor_coordinates S))))
           (wrap_box c (s_box S) (trajectory u ! i)))"
    by (simp add: center_of_mass_simps slab_normalize_simps all_atoms_simps load_frame_simps)
qed

text \<open>
  Counterexample to claim C3. In frame 0 of the slab run on the sample system the solid
  atom is, after the wrap, where it was before the loop, so the translation of the
  solid's centre of mass is zero and would leave the wrapped frame as it is. The
  pipeline moves every atom of the frame by one unit along the second axis.
\<close>

theorem slab_translation_not_of_solid:
  "positions (fst (slab_frame sample_collaborators
       (projr (snd (slab_prepare sample_collaborators sample_universe sample_box 1 [0, 1])))
       0 0
       \<lparr>liquid_contact_coord1 = [], liquid_contact_coord2 = [],
        solid_all = [[(Num 0, Num 0)]]\<rparr>
       (fst (slab_prepare sample_collaborators sample_universe sample_box 1 [0, 1])))) =
     [(Num 1, Num 0, Num 5), (Num 2, Num 2, Num (11 / 2)), (Num 4, Num 3, Num 1)] \<and>
   wrap_box sample_collaborators sample_box (trajectory sample_universe ! 0) =
     [(Num 1, Num 1, Num 5), (Num 2, Num 3, Num (11 / 2)), (Num 4, Num 4, Num 1)] \<and>
   spec_translation sample_collaborators
       (fst (select_atoms solid_names sample_universe))
       (positions (fst (slab_prepare sample_collaborators sample_universe sample_box 1 [0, 1])))
       (wrap_box sample_collaborators sample_box (trajectory sample_universe ! 0)) =
     (Num 0, Num 0, Num 0) \<and>
   wrap_box sample_collaborators sample_box
     (map (\<lambda>p. vcast sample_collaborators (vsub sample_collaborators p (Num 0, Num 0, Num 0)))
        (wrap_box sample_collaborators sample_box (trajectory sample_universe ! 0))) =
     [(Num 1, Num 1, Num 5), (Num 2, Num 3, Num (11 / 2)), (Num 4, Num 4, Num 1)]"
proof -
  have s: "\<forall>k \<in> set [0, 1 :: nat]. k < 3" by simp
  have tr: "trajectory sample_universe ! 0 = sample_frame"
    by (simp add: sample_universe_def)
  have w: "wrap_box sample_collaborators sample_box sample_frame =
     [(Num 1, Num 1, Num 5), (Num 2, Num 3, Num (11 / 2)), (Num 4, Num 4, Num 1)]"
    by (simp add: sample_collaborators_def sample_wrap_frame)
  have a: "positions (fst (slab_frame sample_collaborators
       (projr (snd (slab_prepare sample_collaborators sample_universe sample_box 1 [0, 1])))
       0 0
       \<lparr>liquid_contact_coord1 = [], liquid_contact_coord2 = [],
        solid_all = [[(Num 0, Num 0)]]\<rparr>
       (fst (slab_prepare sample_collaborators sample_universe sample_box 1 [0, 1])))) =
     [(Num 1, Num 0, Num 5), (Num 2, Num 2, Num (11 / 2)), (Num 4, Num 3, Num 1)]"
    apply (simp only: sample_slab_prepare[OF s] fst_conv snd_conv sum.sel)
    apply (simp add: slab_frame_def slab_normalize_def slab_translate_def pack_into_box_def
        center_of_mass_def all_atoms_def translate_all_def set_positions_def load_frame_def
        group_positions_def slab_liquid_def slab_contact_indices_def
        perpendicular_distance_liquid_to_solid_def np_where_def take_rows_def take_cols_def
        py_index_def np_column_def slab_store_solid_def broadcast_rows2_def not_pbc_of_def
        sample_arith sample_universe_def sample_frame_def upt_conv_Cons Let_def)
    done
  have b: "spec_translation sample_collaborators
       (fst (select_atoms solid_names sample_universe))
       (positions (fst (slab_prepare sample_collaborators sample_universe sample_box 1 [0, 1])))
       (wrap_box sample_collaborators sample_box (trajectory sample_universe ! 0)) =
     (Num 0, Num 0, Num 0)"
    apply (simp only: sample_slab_prepare[OF s] fst_conv sample_selections tr w)
    apply (simp add: spec_translation_def sample_universe_def sample_arith)
    done
  have d: "wrap_box sample_collaborators sample_box
     (map (\<lambda>p. vcast sample_collaborators (vsub sample_collaborators p (Num 0, Num 0, Num 0)))
        (wrap_box sample_collaborators sample_box (trajectory sample_universe ! 0))) =
     [(Num 1, Num 1, Num 5), (Num 2, Num 3, Num (11 / 2)), (Num 4, Num 4, Num 1)]"
    apply (simp only: tr w)
    apply (simp add: sample_arith)
    done
  from a b d tr w show ?thesis by (simp only: simp_thms)
qed

text \<open>
  Claim C3, amended. In every frame the tube pipeline processes, the positions that its
  rotation step receives are those of the frame as loaded, each minus the translation:
  the centre of mass of the solid group in that frame minus the anchor, which is the
  centre of mass of the same group in the time step before the loop. In every frame the
  slab pipeline processes, the positions it goes on with are those of the wrapped
  frame, each minus the centre of mass of all atoms, solid and liquid, of the wrapped
  frame minus the anchor, which is the centre of mass of all atoms after the initial
  wrap, and wrapped again. All atoms are moved alike, and the differences are stored in
  single precision.
\<close>

theorem translation_of_each_frame:
  "(tube_prepare c u0 topo cutoff r l pbc = (u3, Inr T) \<and>
    tube_frame c T i tacc u = (u', Inr tacc') \<longrightarrow>
      (case com_of c (fst (select_atoms solid_names u0)) (positions u0) of (ax, ay, az) \<Rightarrow>
       case com_of c (fst (select_atoms solid_names u0)) (trajectory u ! i) of (fx, fy, fz) \<Rightarrow>
         positions u' = positions (fst (tube_rotate c T
           ((load_frame i u)\<lparr>positions :=
               map (\<lambda>(x, y, z). (to_float32 c (f_sub c x (f_sub c fx ax)),
                               to_float32 c (f_sub c y (f_sub c fy ay)),
                               to_float32 c (f_sub c z (f_sub c fz az))))
                 (trajectory u ! i),
             calls := calls u @ [LoadFrame i,
                        CenterOfMass (fst (select_atoms solid_names u0))]\<rparr>))))) \<and>
   (slab_prepare c u0 topo cutoff pbc = (u4, Inr S) \<and>
    slab_frame c S k i sacc u = (u'', Inr sacc') \<longrightarrow>
      (case com_of c (all_atoms u0) (wrap_box c topo (positions u0)) of (ax, ay, az) \<Rightarrow>
       case com_of c (all_atoms u) (wrap_box c topo (trajectory u ! i)) of (fx, fy, fz) \<Rightarrow>
         positions u'' =
           wrap_box c topo
             (map (\<lambda>(x, y, z). (to_float32 c (f_sub c x (f_sub c fx ax)),
                             to_float32 c (f_sub c y (f_sub c fy ay)),
                             to_float32 c (f_sub c z (f_sub c fz az))))
                (wrap_box c topo (trajectory u ! i)))))"
proof (intro conjI impI)
  assume h: "tube_prepare c u0 topo cutoff r l pbc = (u3, Inr T) \<and>
    tube_frame c T i tacc u = (u', Inr tacc')"
  then have prep: "tube_prepare c u0 topo cutoff r l pbc = (u3, Inr T)"
    and fr: "tube_frame c T i tacc u = (u', Inr tacc')" by simp_all
  note fields = tube_prepare_setup[OF prep]
  obtain ax ay az where a: "com_of c (fst (select_atoms solid_names u0)) (positions u0) = (ax, ay, az)"
    by (cases "com_of c (fst (select_atoms solid_names u0)) (positions u0)")
  obtain fx fy fz where f:
    "com_of c (fst (select_atoms solid_names u0)) (trajectory u ! i) = (fx, fy, fz)"
    by (cases "com_of c (fst (select_atoms solid_names u0)) (trajectory u ! i)")
  have solid: "fst (select_atoms solid_names u0) \<noteq> []"
    using fields(3,7) by simp
  have "positions u' = positions (fst (tube_rotate c T
           (fst (tube_translate c (t_solid_atoms T) (t_anchor_coordinates T) (load_frame i u)))))"
    by (rule tube_frame_after_translation(3)[OF fr])
  then show "case com_of c (fst (select_atoms solid_names u0)) (positions u0) of (ax, ay, az) \<Rightarrow>
       case com_of c (fst (select_atoms solid_names u0)) (trajectory u ! i) of (fx, fy, fz) \<Rightarrow>
         positions u' = positions (fst (tube_rotate c T
           ((load_frame i u)\<lparr>positions :=
               map (\<lambda>(x, y, z). (to_float32 c (f_sub c x (f_sub c fx ax)),
                               to_float32 c (f_sub c y (f_sub c fy ay)),
                               to_float32 c (f_sub c z (f_sub c fz az))))
                 (trajectory u ! i),
             calls := calls u @ [LoadFrame i,
                        CenterOfMass (fst (select_atoms solid_names u0))]\<rparr>)))"
    using fields(3,4)
    by (simp only: tube_translate_loaded[OF solid] a f prod.case translation_components)
next
  assume h: "slab_prepare c u0 topo cutoff pbc = (u4, Inr S) \<and>
    slab_frame c S k i sacc u = (u'', Inr sacc')"
  then have prep: "slab_prepare c u0 topo cutoff pbc = (u4, Inr S)"
    and fr: "slab_frame c S k i sacc u = (u'', Inr sacc')" by simp_all
  note fields = slab_prepare_setup[OF prep]
  obtain ax ay az where a: "com_of c (all_atoms u0) (wrap_box c topo (positions u0)) = (ax, ay, az)"
    by (cases "com_of c (all_atoms u0) (wrap_box c topo (positions u0))")
  obtain fx fy fz where f:
    "com_of c (all_atoms u) (wrap_box c topo (trajectory u ! i)) = (fx, fy, fz)"
    by (cases "com_of c (all_atoms u) (wrap_box c topo (trajectory u ! i))")
  from slab_frame_positions(2)[OF fr]
  show "case com_of c (all_atoms u0) (wrap_box c topo (positions u0)) of (ax, ay, az) \<Rightarrow>
       case com_of c (all_atoms u) (wrap_box c topo (trajectory u ! i)) of (fx, fy, fz) \<Rightarrow>
         positions u'' =
           wrap_box c topo
             (map (\<lambda>(x, y, z). (to_float32 c (f_sub c x (f_sub c fx ax)),
                             to_float32 c (f_sub c y (f_sub c fy ay)),
                             to_float32 c (f_sub c z (f_sub c fz az))))
                (wrap_box c topo (trajectory u ! i)))"
    using fields(4,6)
    by (simp only: a f prod.case translation_components)
qed

lemma sample_slab_frame_run:
  "slab_frame sample_collaborators
     \<lparr>s_box = sample_box, s_cutoff = 1, s_pbc_indices = [0, 1],
      s_not_pbc_indices = not_pbc_of [0, 1], s_solid_atoms = [0], s_liquid_atoms = [1, 2],
      s_anchor_coordinates = (Num (7 / 3), Num (5 / 3), Num (23 / 6))\<rparr>
     0 0
     \<lparr>liquid_contact_coord1 = [], liquid_contact_coord2 = [], solid_all = [[(Num 0, Num 0)]]\<rparr>
     (sample_universe\<lparr>calls := [PackIntoBox, SelectAtoms solid_names, SelectAtoms [''O''],
                                 CenterOfMass [0, 1, 2]]\<rparr>) =
   (sample_universe\<lparr>positions := [(Num 1, Num 0, Num 5), (Num 2, Num 2, Num (11 / 2)),
                                   (Num 4, Num 3, Num 1)],
                     calls := [PackIntoBox, SelectAtoms solid_names, SelectAtoms [''O''],
                               CenterOfMass [0, 1, 2], LoadFrame 0, PackIntoBox,
                               CenterOfMass [0, 1, 2], PackIntoBox, CenterOfMass [0]]\<rparr>,
    Inr \<lparr>liquid_contact_coord1 = [Num 2, Num 4], liquid_contact_coord2 = [Num 2, Num 3],
         solid_all = [[(Num 1, Num 0)]]\<rparr>)"
  by (simp add: slab_frame_def slab_normalize_def slab_translate_def pack_into_box_def
        center_of_mass_def all_atoms_def translate_all_def set_positions_def load_frame_def
        group_positions_def slab_liquid_def slab_contact_indices_def
        perpendicular_distance_liquid_to_solid_def np_where_def take_rows_def take_cols_def
        py_index_def np_column_def slab_store_solid_def broadcast_rows2_def not_pbc_of_def
        sample_arith sample_universe_def sample_frame_def upt_conv_Cons Let_def)

text \<open>
  The amended claim C3 for frame 0 of the sample tube, whose carbon atom is one unit
  further along the tube than before the loop, and for frame 0 of the sample slab.
\<close>

theorem translation_of_each_frame_witness:
  "positions (fst (tube_frame sample_collaborators
       (projr (snd (tube_prepare sample_collaborators sample_tube sample_box (3 / 2)
                      (Some 1) (Some 1) [2])))
       0
       \<lparr>tube_liquid_contact_coord1 = [], tube_liquid_contact_coord2 = [],
        solid_coord1 = [], solid_coord2 = []\<rparr>
       (fst (tube_prepare sample_collaborators sample_tube sample_box (3 / 2)
               (Some 1) (Some 1) [2])))) =
     positions (fst (tube_rotate sample_collaborators
       (projr (snd (tube_prepare sample_collaborators sample_tube sample_box (3 / 2)
                      (Some 1) (Some 1) [2])))
       (sample_tube\<lparr>positions := [(Num 3, Num 1, Num 4), (Num 1, Num 1, Num (9 / 2)),
                                   (Num 2, Num 1, Num 10)],
                     calls := [SelectAtoms solid_names, SelectAtoms [''O'', ''H''],
                               CenterOfMass [0], LoadFrame 0, CenterOfMass [0]]\<rparr>))) \<and>
   trajectory sample_tube ! 0 =
     [(Num 3, Num 1, Num 5), (Num 1, Num 1, Num (11 / 2)), (Num 2, Num 1, Num 11)] \<and>
   positions (fst (slab_frame sample_collaborators
       (projr (snd (slab_prepare sample_collaborators sample_universe sample_box 1 [0, 1])))
       0 0
       \<lparr>liquid_contact_coord1 = [], liquid_contact_coord2 = [],
        solid_all = [[(Num 0, Num 0)]]\<rparr>
       (fst (slab_prepare sample_collaborators sample_universe sample_box 1 [0, 1])))) =
     wrap_box sample_collaborators sample_box
       [(Num 1, Num 0, Num 5), (Num 2, Num 2, Num (11 / 2)), (Num 4, Num 3, Num 1)] \<and>
   wrap_box sample_collaborators sample_box (trajectory sample_universe ! 0) =
     [(Num 1, Num 1, Num 5), (Num 2, Num 3, Num (11 / 2)), (Num 4, Num 4, Num 1)]"
proof -
  have s: "\<forall>k \<in> set [0, 1 :: nat]. k < 3" by simp
  have tr: "trajectory sample_universe ! 0 = sample_frame"
    by (simp add: sample_universe_def)
  have w: "wrap_box sample_collaborators sample_box sample_frame =
     [(Num 1, Num 1, Num 5), (Num 2, Num 3, Num (11 / 2)), (Num 4, Num 4, Num 1)]"
    by (simp add: sample_collaborators_def sample_wrap_frame)
  note tube = translation_of_each_frame[THEN conjunct1, rule_format,
      OF conjI[OF sample_tube_prepared sample_tube_frame_run]]
  note slab = translation_of_each_frame[THEN conjunct2, rule_format,
      OF conjI[OF sample_slab_prepare[OF s] sample_slab_frame_run]]
  have a: "positions (fst (tube_frame sample_collaborators
       (projr (snd (tube_prepare sample_collaborators sample_tube sample_box (3 / 2)
                      (Some 1) (Some 1) [2])))
       0
       \<lparr>tube_liquid_contact_coord1 = [], tube_liquid_contact_coord2 = [],
        solid_coord1 = [], solid_coord2 = []\<rparr>
       (fst (tube_prepare sample_collaborators sample_tube sample_box (3 / 2)
               (Some 1) (Some 1) [2])))) =
     positions (fst (tube_rotate sample_collaborators
       (projr (snd (tube_prepare sample_collaborators sample_tube sample_box (3 / 2)
                      (Some 1) (Some 1) [2])))
       (sample_tube\<lparr>positions := [(Num 3, Num 1, Num 4), (Num 1, Num 1, Num (9 / 2)),
                                   (Num 2, Num 1, Num 10)],
                     calls := [SelectAtoms solid_names, SelectAtoms [''O'', ''H''],
                               CenterOfMass [0], LoadFrame 0, CenterOfMass [0]]\<rparr>)))"
    using tube
    apply (simp only: sample_tube_prepared sample_tube_frame_run fst_conv snd_conv sum.sel
        sample_selections)
    apply (simp add: sample_tube_def sample_tube_frame_def sample_arith load_frame_def)
    done
  have b: "trajectory sample_tube ! 0 =
     [(Num 3, Num 1, Num 5), (Num 1, Num 1, Num (11 / 2)), (Num 2, Num 1, Num 11)]"
    by (simp add: sample_tube_def sample_tube_frame_def)
  have d: "positions (fst (slab_frame sample_collaborators
       (projr (snd (slab_prepare sample_collaborators sample_universe sample_box 1 [0, 1])))
       0 0
       \<lparr>liquid_contact_coord1 = [], liquid_contact_coord2 = [],
        solid_all = [[(Num 0, Num 0)]]\<rparr>
       (fst (slab_prepare sample_collaborators sample_universe sample_box 1 [0, 1])))) =
     wrap_box sample_collaborators sample_box
       [(Num 1, Num 0, Num 5), (Num 2, Num 2, Num (11 / 2)), (Num 4, Num 3, Num 1)]"
    using slab
    apply (simp only: sample_slab_prepare[OF s] sample_slab_frame_run fst_conv snd_conv sum.sel)
    apply (simp add: sample_universe_def sample_frame_def sample_arith all_atoms_def
        upt_conv_Cons)
    done
  from a b d tr w show ?thesis by (simp only: simp_thms)
qed

section \<open>Sample runs of the slab pipeline\<close>

lemmas slab_frame_eval = slab_frame_def slab_normalize_def slab_translate_def
  pack_into_box_def center_of_mass_def all_atoms_def translate_all_def set_positions_def
  load_frame_def group_positions_def slab_liquid_def slab_contact_indices_def
  perpendicular_distance_liquid_to_solid_def np_where_def take_rows_def take_cols_def
  py_index_def np_column_def slab_store_solid_def broadcast_rows2_def not_pbc_of_def
  sample_arith sample_universe_def sample_frame_def upt_conv_Cons Let_def

section \<open>C4: the contact layer of the slab\<close>

text \<open>
  Claim C4 on the sample system, cutoff 1. After the normalization of frame 0 the solid
  atom is at height 5 and the second oxygen at height 1, four units below it. The
  comparison is on the signed offset, so this atom is selected too, and its coordinates
  (4, 3) are returned with those of the first oxygen, half a unit above the solid.
\<close>

theorem slab_selects_atom_far_below_solid:
  "slab_contact_indices sample_collaborators [2] 1 (Num 1, Num 0, Num 5)
     [(Num 2, Num 2, Num (11 / 2)), (Num 4, Num 3, Num 1)] = [0, 1] \<and>
   snd (compute_spatial_distribution_of_atoms_on_interface sample_collaborators
          sample_universe sample_box 1 [0, 1] 0 1 1 None None) =
     Inr ([(Num 2, Num 2), (Num 4, Num 3)], [(Num 1, Num 0)])"
proof -
  have s: "\<forall>k \<in> set [0, 1 :: nat]. k < 3" by simp
  have a: "slab_contact_indices sample_collaborators [2] 1 (Num 1, Num 0, Num 5)
     [(Num 2, Num 2, Num (11 / 2)), (Num 4, Num 3, Num 1)] = [0, 1]"
    by (simp add: slab_contact_indices_def perpendicular_distance_liquid_to_solid_def
        np_where_def sample_arith upt_conv_Cons)
  have b: "snd (compute_distribution_for_system_with_two_periodic_directions sample_collaborators
          sample_universe sample_box 1 [0, 1] 0 1 1) =
     Inr ([(Num 2, Num 2), (Num 4, Num 3)], [(Num 1, Num 0)])"
    unfolding compute_distribution_for_system_with_two_periodic_directions_def
    apply (simp only: sample_slab_prepare[OF s])
    apply (simp add: py_int_truediv_def sample_trajectory_length sample_frames_one)
    apply (simp add: slab_frame_eval slab_finish_def np_column_stack_def)
    done
  have c: "length [0, 1 :: nat] \<noteq> 1" by simp
  show ?thesis
    unfolding compute_spatial_distribution_of_atoms_on_interface_def
    by (simp only: c if_False a b simp_thms)
qed

section \<open>C5: the columns of the slab's liquid output\<close>

lemma slab_liquid_third_axis:
  assumes "length pbc = 2" and "2 \<in> set pbc"
  shows "slab_liquid c pbc not_pbc cutoff solid_COM liquid_positions = Inl IndexError"
proof -
  obtain a b where pbc: "pbc = [a, b]"
    using assms(1) by (cases pbc; cases "tl pbc") auto
  with assms(2) have "a = 2 \<or> b = 2" by auto
  then show ?thesis
    by (auto simp: pbc slab_liquid_def take_rows_def py_index_def np_column_def Let_def)
qed

text \<open>
  Claim C5 on the sample system. With the periodic axes 0 and 2, or 1 and 2, the run
  raises IndexError in its first frame: the selected positions are first restricted to
  the two periodic axes and then read at column 2 of that two-column array.
\<close>

theorem slab_raises_for_third_axis:
  "snd (compute_spatial_distribution_of_atoms_on_interface sample_collaborators
          sample_universe sample_box 1 [0, 2] 0 1 1 None None) = Inl IndexError \<and>
   snd (compute_spatial_distribution_of_atoms_on_interface sample_collaborators
          sample_universe sample_box 1 [1, 2] 0 1 1 None None) = Inl IndexError"
proof -
  have run: "snd (compute_distribution_for_system_with_two_periodic_directions sample_collaborators
          sample_universe sample_box 1 pbc 0 1 1) = Inl IndexError"
    if len: "length pbc = 2" and two: "2 \<in> set pbc" and s: "\<forall>k \<in> set pbc. k < 3" for pbc
    unfolding compute_distribution_for_system_with_two_periodic_directions_def
    apply (simp only: sample_slab_prepare[OF s])
    apply (simp add: py_int_truediv_def sample_trajectory_length sample_frames_one)
    apply (simp add: slab_frame_def split_def slab_normalize_simps center_of_mass_simps
        all_atoms_def load_frame_def sample_universe_def slab_liquid_third_axis[OF len two])
    done
  have a: "length [0, 2 :: nat] \<noteq> 1" "length [1, 2 :: nat] \<noteq> 1" by simp_all
  show ?thesis
    unfolding compute_spatial_distribution_of_atoms_on_interface_def
    by (simp only: a if_False) (simp add: run)
qed

section \<open>C6: the rows of the slab's solid output\<close>

text \<open>
  Claim C6 on the sample system. For the frames from 0 to 3 with step 2 the iteration
  yields the frames 0 and 2, and one block is allocated, since \<^verbatim>\<open>int(3 / 2)\<close> is 1;
  storing the solid positions of the second frame raises IndexError. For the frames from
  0 to 5 with step 1 the iteration yields the three frames there are, five blocks are
  allocated, and five rows are returned, two of them the zeros of the allocation.
\<close>

theorem slab_raises_for_partial_stride:
  "frames_of (length (trajectory sample_universe)) 0 3 2 = Inr [0, 2] \<and>
   py_int_truediv (3 - 0) 2 = Inr 1 \<and>
   snd (compute_spatial_distribution_of_atoms_on_interface sample_collaborators
          sample_universe sample_box 1 [0, 1] 0 3 2 None None) = Inl IndexError \<and>
   frames_of (length (trajectory sample_universe)) 0 5 1 = Inr [0, 1, 2] \<and>
   snd (compute_spatial_distribution_of_atoms_on_interface sample_collaborators
          sample_universe sample_box 1 [0, 1] 0 5 1 None None) =
     Inr ([(Num 2, Num 2), (Num 4, Num 3), (Num 2, Num 2), (Num 4, Num 3),
           (Num 2, Num 2), (Num 4, Num 3)],
          [(Num 1, Num 0), (Num 1, Num 0), (Num 1, Num 0), (Num 0, Num 0), (Num 0, Num 0)])"
proof -
  have s: "\<forall>k \<in> set [0, 1 :: nat]. k < 3" by simp
  have a: "frames_of (length (trajectory sample_universe)) 0 3 2 = Inr [0, 2]"
    by (simp only: sample_trajectory_length sample_frames_stride)
  have b: "py_int_truediv (3 - 0) 2 = Inr 1"
    by (simp add: py_int_truediv_def)
  have c: "snd (compute_distribution_for_system_with_two_periodic_directions sample_collaborators
          sample_universe sample_box 1 [0, 1] 0 3 2) = Inl IndexError"
    unfolding compute_distribution_for_system_with_two_periodic_directions_def
    apply (simp only: sample_slab_prepare[OF s])
    apply (simp add: py_int_truediv_def sample_trajectory_length sample_frames_stride)
    apply (simp add: slab_frame_eval)
    done
  have all: "frames_of 3 0 5 1 = Inr [0, 1, 2]"
    by (simp add: frames_of_def py_stride_def py_slice_def py_slice_bound_def upt_conv_Cons)
  have d: "frames_of (length (trajectory sample_universe)) 0 5 1 = Inr [0, 1, 2]"
    by (simp only: sample_trajectory_length all)
  have e: "snd (compute_distribution_for_system_with_two_periodic_directions sample_collaborators
          sample_universe sample_box 1 [0, 1] 0 5 1) =
     Inr ([(Num 2, Num 2), (Num 4, Num 3), (Num 2, Num 2), (Num 4, Num 3),
           (Num 2, Num 2), (Num 4, Num 3)],
          [(Num 1, Num 0), (Num 1, Num 0), (Num 1, Num 0), (Num 0, Num 0), (Num 0, Num 0)])"
    unfolding compute_distribution_for_system_with_two_periodic_directions_def
    apply (simp only: sample_slab_prepare[OF s])
    apply (simp add: py_int_truediv_def sample_trajectory_length all)
    apply (simp add: slab_frame_eval slab_finish_def np_column_stack_def)
    apply (simp add: eval_nat_numeral)
    done
  have one: "length [0, 1 :: nat] \<noteq> 1" by simp
  show ?thesis
    unfolding compute_spatial_distribution_of_atoms_on_interface_def
    by (simp only: one if_False a b c d e simp_thms)
qed

end
